theory Spec2Isabelle
  imports Complex_Main
begin

section \<open>JavaScript values\<close>

text \<open>
  The adapter is TypeScript running on a JavaScript runtime. Its arguments are plain
  objects that the code reads by property, enumerates with \<^verbatim>\<open>Object.entries\<close>, splits with a
  rest pattern and hands to \<^verbatim>\<open>JSON.stringify\<close>, so an object is modelled as the list of its own
  enumerable properties in enumeration order, each name once. Strings are modelled by
  their UTF-8 bytes: the ASCII characters the code tests for are single bytes, and no byte
  of a longer sequence is ASCII. A number is a rational (every finite double is one), NaN
  or an infinity. A Date is given by the ISO text its \<^verbatim>\<open>toJSON\<close> writes. The model follows the
  client that validates updates and duplicates lists, and the dispatcher that registers
  its nine operations as tools.
\<close>

datatype number = Finite rat | NaN | PosInfinity | NegInfinity

datatype date = ValidDate string | InvalidDate

datatype jsval =
    VUndefined
  | VNull
  | VBool bool
  | VNum number
  | VStr string
  | VDate date
  | VArr "jsval list"
  | VObj "(string \<times> jsval) list"

datatype json =
    JNull
  | JBool bool
  | JNum rat
  | JStr string
  | JArr "json list"
  | JObj "(string \<times> json) list"

text \<open>Property read \<^verbatim>\<open>obj.k\<close>: the value, or \<^verbatim>\<open>undefined\<close> when the object has no such property.\<close>

definition property :: "(string \<times> jsval) list \<Rightarrow> string \<Rightarrow> jsval" where
  "property obj k = (case map_of obj k of None \<Rightarrow> VUndefined | Some v \<Rightarrow> v)"

text \<open>ToBoolean, as used by \<^verbatim>\<open>!x\<close>, \<^verbatim>\<open>x && y\<close> and \<^verbatim>\<open>x || y\<close>.\<close>

fun truthy :: "jsval \<Rightarrow> bool" where
  "truthy VUndefined = False"
| "truthy VNull = False"
| "truthy (VBool b) = b"
| "truthy (VNum (Finite q)) = (q \<noteq> 0)"
| "truthy (VNum NaN) = False"
| "truthy (VNum PosInfinity) = True"
| "truthy (VNum NegInfinity) = True"
| "truthy (VStr s) = (s \<noteq> [])"
| "truthy (VDate d) = True"
| "truthy (VArr xs) = True"
| "truthy (VObj kvs) = True"

text \<open>
  \<^verbatim>\<open>JSON.stringify\<close>, up to the layout of the text: the document that is written. A property
  whose value is \<^verbatim>\<open>undefined\<close> is left out, an \<^verbatim>\<open>undefined\<close> array element and a number that is
  not finite are written \<^verbatim>\<open>null\<close>, a Date is written through \<^verbatim>\<open>toJSON\<close> (its ISO text, or \<^verbatim>\<open>null\<close>
  when the date is invalid).
\<close>

fun JSON_stringify :: "jsval \<Rightarrow> json option" where
  "JSON_stringify VUndefined = None"
| "JSON_stringify VNull = Some JNull"
| "JSON_stringify (VBool b) = Some (JBool b)"
| "JSON_stringify (VNum (Finite q)) = Some (JNum q)"
| "JSON_stringify (VNum NaN) = Some JNull"
| "JSON_stringify (VNum PosInfinity) = Some JNull"
| "JSON_stringify (VNum NegInfinity) = Some JNull"
| "JSON_stringify (VStr s) = Some (JStr s)"
| "JSON_stringify (VDate (ValidDate text)) = Some (JStr text)"
| "JSON_stringify (VDate InvalidDate) = Some JNull"
| "JSON_stringify (VArr xs) =
     Some (JArr (map (\<lambda>x. case JSON_stringify x of None \<Rightarrow> JNull | Some j \<Rightarrow> j) xs))"
| "JSON_stringify (VObj kvs) =
     Some (JObj (concat (map (\<lambda>(k, v). case JSON_stringify v of None \<Rightarrow> [] | Some j \<Rightarrow> [(k, j)]) kvs)))"

text \<open>
  The value \<^verbatim>\<open>JSON.parse\<close> builds from a document (a document's object names each member
  once).
\<close>

fun JSON_value :: "json \<Rightarrow> jsval" where
  "JSON_value JNull = VNull"
| "JSON_value (JBool b) = VBool b"
| "JSON_value (JNum q) = VNum (Finite q)"
| "JSON_value (JStr s) = VStr s"
| "JSON_value (JArr xs) = VArr (map JSON_value xs)"
| "JSON_value (JObj kvs) = VObj (map (\<lambda>(k, j). (k, JSON_value j)) kvs)"


section \<open>The network and the runtime\<close>

text \<open>
  One call of \<^verbatim>\<open>fetch\<close> either rejects (no response was obtained) or resolves to a response.
  \<^verbatim>\<open>response.json()\<close> either rejects, when the body is not a JSON text, or yields the parsed
  document. The runtime also supplies the two conversions to text that the language leaves
  to the implementation's number and date formatting.
\<close>

datatype http_method = GET | POST | PATCH | DELETE

record request =
  "method" :: http_method
  url :: string
  headers :: "(string \<times> string) list"
  body :: "json option"

record response =
  status :: nat
  json_body :: "string + json"

definition ok :: "response \<Rightarrow> bool" where
  "ok r = (200 \<le> status r \<and> status r \<le> 299)"

datatype fetch_outcome = Rejected string | Resolved response

record runtime =
  fetch :: "request \<Rightarrow> fetch_outcome"
  Number_toString :: "rat \<Rightarrow> string"
  Date_toString :: "date \<Rightarrow> string"

fun join :: "'a list \<Rightarrow> 'a list list \<Rightarrow> 'a list" where
  "join sep [] = []"
| "join sep [x] = x"
| "join sep (x # y # ys) = x @ sep @ join sep (y # ys)"

text \<open>ToString: \<^verbatim>\<open>String(v)\<close>, a template literal's \<^verbatim>\<open>${v}\<close>, the message of \<^verbatim>\<open>new Error(v)\<close>.\<close>

fun ToString :: "runtime \<Rightarrow> jsval \<Rightarrow> string" where
  "ToString rt VUndefined = ''undefined''"
| "ToString rt VNull = ''null''"
| "ToString rt (VBool b) = (if b then ''true'' else ''false'')"
| "ToString rt (VNum (Finite q)) = Number_toString rt q"
| "ToString rt (VNum NaN) = ''NaN''"
| "ToString rt (VNum PosInfinity) = ''Infinity''"
| "ToString rt (VNum NegInfinity) = ''-Infinity''"
| "ToString rt (VStr s) = s"
| "ToString rt (VDate d) = Date_toString rt d"
| "ToString rt (VArr xs) =
     join '','' (map (\<lambda>x. if x = VUndefined \<or> x = VNull then [] else ToString rt x) xs)"
| "ToString rt (VObj kvs) = ''[object Object]''"

text \<open>\<^verbatim>\<open>Number.isInteger(v)\<close>, and \<^verbatim>\<open>v < 0\<close> on a number.\<close>

fun Number_isInteger :: "jsval \<Rightarrow> bool" where
  "Number_isInteger (VNum (Finite q)) = (of_int \<lfloor>q\<rfloor> = q)"
| "Number_isInteger v = False"

fun below_zero :: "jsval \<Rightarrow> bool" where
  "below_zero (VNum (Finite q)) = (q < 0)"
| "below_zero (VNum NegInfinity) = True"
| "below_zero v = False"

text \<open>The regular expression \<^verbatim>\<open>/^\d{4}-\d{2}-\d{2}$/\<close>: no flags, so \<^verbatim>\<open>$\<close> is the end of the input.\<close>

definition digit :: "char \<Rightarrow> bool" where
  "digit c = (c \<in> set ''0123456789'')"

definition YYYY_MM_DD_test :: "string \<Rightarrow> bool" where
  "YYYY_MM_DD_test s =
     (case s of
        [y1, y2, y3, y4, h1, m1, m2, h2, d1, d2] \<Rightarrow>
          digit y1 \<and> digit y2 \<and> digit y3 \<and> digit y4 \<and> h1 = CHR ''-'' \<and>
          digit m1 \<and> digit m2 \<and> h2 = CHR ''-'' \<and> digit d1 \<and> digit d2
      | _ \<Rightarrow> False)"

text \<open>
  \<^verbatim>\<open>encodeURIComponent\<close> on the UTF-8 bytes of a string: the unreserved characters stay, every
  other byte becomes \<^verbatim>\<open>%XX\<close> in upper-case hexadecimal. (On a string that holds half of a
  surrogate pair the function throws; such a string has no UTF-8 form and is not a value
  of the model.)
\<close>

definition unreserved :: "char \<Rightarrow> bool" where
  "unreserved c =
     (c \<in> set ''ABCDEFGHIJKLMNOPQRSTUVWXYZabcdefghijklmnopqrstuvwxyz0123456789-_.!~*()''
      \<or> c = CHR 0x27)"

definition hex_digit :: "nat \<Rightarrow> char" where
  "hex_digit n = ''0123456789ABCDEF'' ! (n mod 16)"

definition percent_encode :: "char \<Rightarrow> string" where
  "percent_encode c = [CHR ''%'', hex_digit (of_char c div 16), hex_digit (of_char c mod 16)]"

definition encodeURIComponent :: "string \<Rightarrow> string" where
  "encodeURIComponent s = concat (map (\<lambda>c. if unreserved c then [c] else percent_encode c) s)"


section \<open>The API client\<close>

text \<open>
  A thrown \<^verbatim>\<open>Error\<close> is the left injection carrying its message. Every operation returns its
  outcome together with the calls it made to \<^verbatim>\<open>fetch\<close>, in order.
\<close>

record GodspeedAPI =
  authToken :: "string option"

definition API_BASE_URL :: string where
  "API_BASE_URL = ''https://api.godspeedapp.com''"

definition createGodspeedClient :: GodspeedAPI where
  "createGodspeedClient = \<lparr>authToken = None\<rparr>"

definition setAuthToken :: "GodspeedAPI \<Rightarrow> string \<Rightarrow> GodspeedAPI" where
  "setAuthToken c token = c\<lparr>authToken := Some token\<rparr>"

definition getAuthHeaders :: "GodspeedAPI \<Rightarrow> string + (string \<times> string) list" where
  "getAuthHeaders c =
     (case authToken c of
        None \<Rightarrow> Inl ''Authentication token is required. Use setAuthToken() method to set it.''
      | Some token \<Rightarrow>
          if token = [] then
            Inl ''Authentication token is required. Use setAuthToken() method to set it.''
          else
            Inr [(''Authorization'', ''Bearer '' @ token), (''Content-Type'', ''application/json'')])"

text \<open>
  \<^verbatim>\<open>data.error\<close>: reading a property of \<^verbatim>\<open>null\<close> throws a TypeError (the message is V8's); a
  value that is not an object has no such property.
\<close>

definition null_property_message :: string where
  "null_property_message =
     ''Cannot read properties of null (reading '' @ [CHR 0x27] @ ''error'' @ [CHR 0x27] @ '')''"

fun read_error :: "jsval \<Rightarrow> string + jsval" where
  "read_error VNull = Inl null_property_message"
| "read_error (VObj kvs) = Inr (property kvs ''error'')"
| "read_error v = Inr VUndefined"

text \<open>
  The part every operation shares once its request is built:
  \<^verbatim>\<open>const response = await fetch(...); const data = await response.json();\<close>
  \<^verbatim>\<open>if (!response.ok) throw new Error(data.error || generic); return data;\<close>
\<close>

definition exchange :: "runtime \<Rightarrow> string \<Rightarrow> request \<Rightarrow> string + jsval" where
  "exchange rt generic req =
     (case fetch rt req of
        Rejected m \<Rightarrow> Inl m
      | Resolved r \<Rightarrow>
          (case json_body r of
             Inl m \<Rightarrow> Inl m
           | Inr doc \<Rightarrow>
               (let data = JSON_value doc in
                if ok r then Inr data
                else
                  (case read_error data of
                     Inl m \<Rightarrow> Inl m
                   | Inr e \<Rightarrow> Inl (if truthy e then ToString rt e else generic)))))"

text \<open>
  The \<^verbatim>\<open>try { ... } catch (error) { throw new Error(`<name> error: ${error.message}`) }\<close>
  around every operation's body. \<open>prepared\<close> is what the body does before it calls
  \<^verbatim>\<open>fetch\<close>: a thrown error, or the request to send.
\<close>

definition perform ::
  "runtime \<Rightarrow> string \<Rightarrow> string \<Rightarrow> string + request \<Rightarrow> (string + jsval) \<times> request list" where
  "perform rt name generic prepared =
     (case prepared of
        Inl m \<Rightarrow> (Inl (name @ '' error: '' @ m), [])
      | Inr req \<Rightarrow>
          (case exchange rt generic req of
             Inl m \<Rightarrow> (Inl (name @ '' error: '' @ m), [req])
           | Inr data \<Rightarrow> (Inr data, [req])))"

definition createTask_request :: "GodspeedAPI \<Rightarrow> (string \<times> jsval) list \<Rightarrow> string + request" where
  "createTask_request c params =
     (case getAuthHeaders c of
        Inl m \<Rightarrow> Inl m
      | Inr hs \<Rightarrow>
          Inr \<lparr>method = POST, url = API_BASE_URL @ ''/tasks'', headers = hs,
               body = JSON_stringify (VObj params)\<rparr>)"

definition createTask ::
  "GodspeedAPI \<Rightarrow> runtime \<Rightarrow> (string \<times> jsval) list \<Rightarrow> (string + jsval) \<times> request list" where
  "createTask c rt params =
     perform rt ''Create task'' ''Failed to create task'' (createTask_request c params)"

definition updateTask_request ::
  "GodspeedAPI \<Rightarrow> runtime \<Rightarrow> (string \<times> jsval) list \<Rightarrow> string + request" where
  "updateTask_request c rt params =
     (case getAuthHeaders c of
        Inl m \<Rightarrow> Inl m
      | Inr hs \<Rightarrow>
          if \<not> truthy (property params ''id'') then
            Inl ''Task ID is required''
          else if truthy (property params ''due_at'') \<and> truthy (property params ''timeless_due_at'') then
            Inl ''Cannot specify both due_at and timeless_due_at''
          else if truthy (property params ''snoozed_until'')
                  \<and> truthy (property params ''timeless_snoozed_until'') then
            Inl ''Cannot specify both snoozed_until and timeless_snoozed_until''
          else if truthy (property params ''starts_at'')
                  \<and> truthy (property params ''timeless_starts_at'') then
            Inl ''Cannot specify both starts_at and timeless_starts_at''
          else if truthy (property params ''timeless_due_at'')
                  \<and> \<not> YYYY_MM_DD_test (ToString rt (property params ''timeless_due_at'')) then
            Inl ''timeless_due_at must be formatted as YYYY-MM-DD''
          else if truthy (property params ''timeless_snoozed_until'')
                  \<and> \<not> YYYY_MM_DD_test (ToString rt (property params ''timeless_snoozed_until'')) then
            Inl ''timeless_snoozed_until must be formatted as YYYY-MM-DD''
          else if truthy (property params ''timeless_starts_at'')
                  \<and> \<not> YYYY_MM_DD_test (ToString rt (property params ''timeless_starts_at'')) then
            Inl ''timeless_starts_at must be formatted as YYYY-MM-DD''
          else if property params ''duration_minutes'' \<noteq> VUndefined
                  \<and> (\<not> Number_isInteger (property params ''duration_minutes'')
                       \<or> below_zero (property params ''duration_minutes'')) then
            Inl ''duration_minutes must be a positive integer''
          else
            Inr \<lparr>method = PATCH,
                 url = API_BASE_URL @ ''/tasks/'' @ ToString rt (property params ''id''),
                 headers = hs,
                 body = JSON_stringify (VObj (filter (\<lambda>(k, v). k \<noteq> ''id'') params))\<rparr>)"

definition updateTask ::
  "GodspeedAPI \<Rightarrow> runtime \<Rightarrow> (string \<times> jsval) list \<Rightarrow> (string + jsval) \<times> request list" where
  "updateTask c rt params =
     perform rt ''Update task'' ''Failed to update task'' (updateTask_request c rt params)"

definition getTask_request :: "GodspeedAPI \<Rightarrow> runtime \<Rightarrow> jsval \<Rightarrow> string + request" where
  "getTask_request c rt ident =
     (if \<not> truthy ident then Inl ''Task ID is required''
      else
        (case getAuthHeaders c of
           Inl m \<Rightarrow> Inl m
         | Inr hs \<Rightarrow>
             Inr \<lparr>method = GET, url = API_BASE_URL @ ''/tasks/'' @ ToString rt ident,
                  headers = hs, body = None\<rparr>))"

definition getTask ::
  "GodspeedAPI \<Rightarrow> runtime \<Rightarrow> jsval \<Rightarrow> (string + jsval) \<times> request list" where
  "getTask c rt ident =
     perform rt ''Get task'' ''Failed to get task'' (getTask_request c rt ident)"

definition deleteTask_request :: "GodspeedAPI \<Rightarrow> runtime \<Rightarrow> jsval \<Rightarrow> string + request" where
  "deleteTask_request c rt ident =
     (if \<not> truthy ident then Inl ''Task ID is required''
      else
        (case getAuthHeaders c of
           Inl m \<Rightarrow> Inl m
         | Inr hs \<Rightarrow>
             Inr \<lparr>method = DELETE, url = API_BASE_URL @ ''/tasks/'' @ ToString rt ident,
                  headers = hs, body = None\<rparr>))"

definition deleteTask ::
  "GodspeedAPI \<Rightarrow> runtime \<Rightarrow> jsval \<Rightarrow> (string + jsval) \<times> request list" where
  "deleteTask c rt ident =
     perform rt ''Delete task'' ''Failed to delete task'' (deleteTask_request c rt ident)"

text \<open>
  \<^verbatim>\<open>Object.entries(params).filter(([_, value]) => value !== undefined)\<close>
  \<^verbatim>\<open>.map(([key, value]) => `${key}=${encodeURIComponent(String(value))}`).join('&')\<close>
\<close>

definition queryParams :: "runtime \<Rightarrow> (string \<times> jsval) list option \<Rightarrow> string" where
  "queryParams rt params =
     (case params of
        None \<Rightarrow> []
      | Some entries \<Rightarrow>
          join ''&''
            (map (\<lambda>(key, value). key @ ''='' @ encodeURIComponent (ToString rt value))
               (filter (\<lambda>(key, value). value \<noteq> VUndefined) entries)))"

definition listTasks_request ::
  "GodspeedAPI \<Rightarrow> runtime \<Rightarrow> (string \<times> jsval) list option \<Rightarrow> string + request" where
  "listTasks_request c rt params =
     (case getAuthHeaders c of
        Inl m \<Rightarrow> Inl m
      | Inr hs \<Rightarrow>
          Inr \<lparr>method = GET,
               url = API_BASE_URL @ ''/tasks''
                     @ (if queryParams rt params \<noteq> [] then ''?'' @ queryParams rt params else []),
               headers = hs, body = None\<rparr>)"

definition listTasks ::
  "GodspeedAPI \<Rightarrow> runtime \<Rightarrow> (string \<times> jsval) list option \<Rightarrow> (string + jsval) \<times> request list" where
  "listTasks c rt params =
     perform rt ''List tasks'' ''Failed to list tasks'' (listTasks_request c rt params)"

definition getTaskLists_request :: "GodspeedAPI \<Rightarrow> string + request" where
  "getTaskLists_request c =
     (case getAuthHeaders c of
        Inl m \<Rightarrow> Inl m
      | Inr hs \<Rightarrow>
          Inr \<lparr>method = GET, url = API_BASE_URL @ ''/lists'', headers = hs, body = None\<rparr>)"

definition getTaskLists :: "GodspeedAPI \<Rightarrow> runtime \<Rightarrow> (string + jsval) \<times> request list" where
  "getTaskLists c rt =
     perform rt ''Get task lists'' ''Failed to get task lists'' (getTaskLists_request c)"

definition completeTask ::
  "GodspeedAPI \<Rightarrow> runtime \<Rightarrow> jsval \<Rightarrow> (string + jsval) \<times> request list" where
  "completeTask c rt ident = updateTask c rt [(''id'', ident), (''is_complete'', VBool True)]"

definition uncompleteTask ::
  "GodspeedAPI \<Rightarrow> runtime \<Rightarrow> jsval \<Rightarrow> (string + jsval) \<times> request list" where
  "uncompleteTask c rt ident = updateTask c rt [(''id'', ident), (''is_complete'', VBool False)]"

definition duplicateList_request ::
  "GodspeedAPI \<Rightarrow> runtime \<Rightarrow> jsval \<Rightarrow> (string \<times> jsval) list option \<Rightarrow> string + request" where
  "duplicateList_request c rt listId params =
     (if \<not> truthy listId then Inl ''List ID is required''
      else
        (case getAuthHeaders c of
           Inl m \<Rightarrow> Inl m
         | Inr hs \<Rightarrow>
             Inr \<lparr>method = POST,
                  url = API_BASE_URL @ ''/lists/'' @ ToString rt listId @ ''/duplicate'',
                  headers = hs,
                  body = JSON_stringify (VObj (case params of None \<Rightarrow> [] | Some p \<Rightarrow> p))\<rparr>))"

definition duplicateList ::
  "GodspeedAPI \<Rightarrow> runtime \<Rightarrow> jsval \<Rightarrow> (string \<times> jsval) list option
     \<Rightarrow> (string + jsval) \<times> request list" where
  "duplicateList c rt listId params =
     perform rt ''Duplicate list'' ''Failed to duplicate list'' (duplicateList_request c rt listId params)"


section \<open>The tool dispatcher\<close>

text \<open>
  Each tool is registered with \<^verbatim>\<open>server.tool(name, shape, handler)\<close>: a name, the declared
  shape of its arguments (a zod schema per property) and a handler. The shapes are data
  here, with the schema constructors the file uses.
\<close>

datatype number_check = IntCheck | NonnegativeCheck

datatype zod =
    ZString
  | ZDate
  | ZBoolean
  | ZNumber "number_check list"
  | ZEnum "string list"
  | ZArray zod
  | ZRecord zod
  | ZAny
  | ZOptional zod

definition listTasks_shape :: "(string \<times> zod) list" where
  "listTasks_shape =
     [(''status'', ZOptional (ZEnum [''incomplete'', ''complete''])),
      (''list_id'', ZOptional ZString),
      (''updated_before'', ZOptional ZString),
      (''updated_after'', ZOptional ZString)]"

definition getTask_shape :: "(string \<times> zod) list" where
  "getTask_shape = [(''id'', ZString)]"

definition createTask_shape :: "(string \<times> zod) list" where
  "createTask_shape =
     [(''title'', ZString),
      (''list_id'', ZOptional ZString),
      (''location'', ZOptional (ZEnum [''start'', ''end''])),
      (''notes'', ZOptional ZString),
      (''due_at'', ZOptional ZDate),
      (''timeless_due_at'', ZOptional ZString),
      (''starts_at'', ZOptional ZDate),
      (''timeless_starts_at'', ZOptional ZString),
      (''duration_minutes'', ZOptional (ZNumber [IntCheck, NonnegativeCheck])),
      (''label_names'', ZOptional (ZArray ZString)),
      (''label_ids'', ZOptional (ZArray ZString)),
      (''metadata'', ZOptional (ZRecord ZAny))]"

definition updateTask_shape :: "(string \<times> zod) list" where
  "updateTask_shape =
     [(''id'', ZString),
      (''title'', ZOptional ZString),
      (''notes'', ZOptional ZString),
      (''due_at'', ZOptional ZDate),
      (''timeless_due_at'', ZOptional ZString),
      (''snoozed_until'', ZOptional ZDate),
      (''timeless_snoozed_until'', ZOptional ZString),
      (''starts_at'', ZOptional ZDate),
      (''timeless_starts_at'', ZOptional ZString),
      (''duration_minutes'', ZOptional (ZNumber [IntCheck, NonnegativeCheck])),
      (''is_complete'', ZOptional ZBoolean),
      (''is_cleared'', ZOptional ZBoolean),
      (''add_label_names'', ZOptional (ZArray ZString)),
      (''add_label_ids'', ZOptional (ZArray ZString)),
      (''remove_label_names'', ZOptional (ZArray ZString)),
      (''remove_label_ids'', ZOptional (ZArray ZString)),
      (''metadata'', ZOptional (ZRecord ZAny))]"

definition deleteTask_shape :: "(string \<times> zod) list" where
  "deleteTask_shape = [(''id'', ZString)]"

definition completeTask_shape :: "(string \<times> zod) list" where
  "completeTask_shape = [(''id'', ZString)]"

definition uncompleteTask_shape :: "(string \<times> zod) list" where
  "uncompleteTask_shape = [(''id'', ZString)]"

definition getTaskLists_shape :: "(string \<times> zod) list" where
  "getTaskLists_shape = [(''random_string'', ZString)]"

definition duplicateList_shape :: "(string \<times> zod) list" where
  "duplicateList_shape = [(''list_id'', ZString), (''name'', ZOptional ZString)]"

text \<open>
  What a schema accepts. The validation itself is the work of the schema library and of the
  protocol framework, which parses the arguments against the declared shape before it runs
  the handler; the library's rules for the constructors above are: \<^verbatim>\<open>z.number()\<close> refuses NaN,
  \<^verbatim>\<open>.int()\<close> asks \<^verbatim>\<open>Number.isInteger\<close>, \<^verbatim>\<open>.nonnegative()\<close> asks \<^verbatim>\<open>>= 0\<close>, \<^verbatim>\<open>z.date()\<close> wants a valid Date,
  \<^verbatim>\<open>z.record\<close> a plain object, \<^verbatim>\<open>.optional()\<close> also takes \<^verbatim>\<open>undefined\<close>.
\<close>

fun number_check_ok :: "number_check \<Rightarrow> number \<Rightarrow> bool" where
  "number_check_ok IntCheck n = Number_isInteger (VNum n)"
| "number_check_ok NonnegativeCheck n = (\<not> below_zero (VNum n))"

fun zod_check :: "zod \<Rightarrow> jsval \<Rightarrow> bool" where
  "zod_check ZString v = (case v of VStr s \<Rightarrow> True | _ \<Rightarrow> False)"
| "zod_check ZDate v = (case v of VDate (ValidDate t) \<Rightarrow> True | _ \<Rightarrow> False)"
| "zod_check ZBoolean v = (case v of VBool b \<Rightarrow> True | _ \<Rightarrow> False)"
| "zod_check (ZNumber checks) v =
     (case v of VNum n \<Rightarrow> n \<noteq> NaN \<and> list_all (\<lambda>ch. number_check_ok ch n) checks | _ \<Rightarrow> False)"
| "zod_check (ZEnum options) v = (case v of VStr s \<Rightarrow> s \<in> set options | _ \<Rightarrow> False)"
| "zod_check (ZArray z) v = (case v of VArr xs \<Rightarrow> list_all (zod_check z) xs | _ \<Rightarrow> False)"
| "zod_check (ZRecord z) v =
     (case v of VObj kvs \<Rightarrow> list_all (\<lambda>x. zod_check z (snd x)) kvs | _ \<Rightarrow> False)"
| "zod_check ZAny v = True"
| "zod_check (ZOptional z) v = (v = VUndefined \<or> zod_check z v)"

text \<open>
  Parsing an argument object against a shape: every declared property must be accepted;
  the result keeps the declared properties the arguments have, in the declared order, and
  drops the others.
\<close>

definition zod_object :: "(string \<times> zod) list \<Rightarrow> (string \<times> jsval) list \<Rightarrow> (string \<times> jsval) list option" where
  "zod_object shape args =
     (if list_all (\<lambda>(k, z). zod_check z (property args k)) shape then
        Some (map (\<lambda>(k, z). (k, property args k))
                (filter (\<lambda>(k, z). k \<in> set (map fst args)) shape))
      else None)"

text \<open>
  The text of a tool result: \<^verbatim>\<open>JSON.stringify(result, null, 2)\<close>, given by the document it
  writes, or a plain line.
\<close>

datatype tool_text = JsonText "json option" | PlainText string

text \<open>
  The \<^verbatim>\<open>try { const result = await ...; return text(JSON.stringify(result, null, 2)) }\<close>
  \<^verbatim>\<open>catch (error) { return text(`Error: ${error.message}`) }\<close> of every handler.
\<close>

definition reply :: "(string + jsval) \<times> request list \<Rightarrow> tool_text \<times> request list" where
  "reply outcome =
     (case fst outcome of
        Inr result \<Rightarrow> (JsonText (JSON_stringify result), snd outcome)
      | Inl m \<Rightarrow> (PlainText (''Error: '' @ m), snd outcome))"

definition listTasks_tool ::
  "GodspeedAPI \<Rightarrow> runtime \<Rightarrow> (string \<times> jsval) list \<Rightarrow> tool_text \<times> request list" where
  "listTasks_tool c rt params = reply (listTasks c rt (Some params))"

definition getTask_tool ::
  "GodspeedAPI \<Rightarrow> runtime \<Rightarrow> (string \<times> jsval) list \<Rightarrow> tool_text \<times> request list" where
  "getTask_tool c rt params = reply (getTask c rt (property params ''id''))"

definition createTask_tool ::
  "GodspeedAPI \<Rightarrow> runtime \<Rightarrow> (string \<times> jsval) list \<Rightarrow> tool_text \<times> request list" where
  "createTask_tool c rt params = reply (createTask c rt params)"

definition updateTask_tool ::
  "GodspeedAPI \<Rightarrow> runtime \<Rightarrow> (string \<times> jsval) list \<Rightarrow> tool_text \<times> request list" where
  "updateTask_tool c rt params = reply (updateTask c rt params)"

definition deleteTask_tool ::
  "GodspeedAPI \<Rightarrow> runtime \<Rightarrow> (string \<times> jsval) list \<Rightarrow> tool_text \<times> request list" where
  "deleteTask_tool c rt params = reply (deleteTask c rt (property params ''id''))"

definition completeTask_tool ::
  "GodspeedAPI \<Rightarrow> runtime \<Rightarrow> (string \<times> jsval) list \<Rightarrow> tool_text \<times> request list" where
  "completeTask_tool c rt params = reply (completeTask c rt (property params ''id''))"

definition uncompleteTask_tool ::
  "GodspeedAPI \<Rightarrow> runtime \<Rightarrow> (string \<times> jsval) list \<Rightarrow> tool_text \<times> request list" where
  "uncompleteTask_tool c rt params = reply (uncompleteTask c rt (property params ''id''))"

definition getTaskLists_tool ::
  "GodspeedAPI \<Rightarrow> runtime \<Rightarrow> (string \<times> jsval) list \<Rightarrow> tool_text \<times> request list" where
  "getTaskLists_tool c rt params = reply (getTaskLists c rt)"

definition duplicateList_tool ::
  "GodspeedAPI \<Rightarrow> runtime \<Rightarrow> (string \<times> jsval) list \<Rightarrow> tool_text \<times> request list" where
  "duplicateList_tool c rt params =
     (let list_id = property params ''list_id''; name = property params ''name'' in
      reply (duplicateList c rt list_id (if truthy name then Some [(''name'', name)] else None)))"

text \<open>The registered tools, in the order of registration.\<close>

definition tools ::
  "(string \<times> (string \<times> zod) list
      \<times> (GodspeedAPI \<Rightarrow> runtime \<Rightarrow> (string \<times> jsval) list \<Rightarrow> tool_text \<times> request list)) list" where
  "tools =
     [(''listTasks'', listTasks_shape, listTasks_tool),
      (''getTask'', getTask_shape, getTask_tool),
      (''createTask'', createTask_shape, createTask_tool),
      (''updateTask'', updateTask_shape, updateTask_tool),
      (''deleteTask'', deleteTask_shape, deleteTask_tool),
      (''completeTask'', completeTask_shape, completeTask_tool),
      (''uncompleteTask'', uncompleteTask_shape, uncompleteTask_tool),
      (''getTaskLists'', getTaskLists_shape, getTaskLists_tool),
      (''duplicateList'', duplicateList_shape, duplicateList_tool)]"

text \<open>
  A tool call as the framework runs it: the arguments are parsed against the tool's shape,
  and the handler runs on the parsed arguments only when they are accepted.
\<close>

datatype call_result = UnknownTool | InvalidArguments | Returned tool_text

definition callTool ::
  "GodspeedAPI \<Rightarrow> runtime \<Rightarrow> string \<Rightarrow> (string \<times> jsval) list \<Rightarrow> call_result \<times> request list" where
  "callTool c rt name args =
     (case map_of tools name of
        None \<Rightarrow> (UnknownTool, [])
      | Some (shape, handler) \<Rightarrow>
          (case zod_object shape args of
             None \<Rightarrow> (InvalidArguments, [])
           | Some parsed \<Rightarrow>
               (case handler c rt parsed of (text, sent) \<Rightarrow> (Returned text, sent))))"


section \<open>The client's declared inputs\<close>

text \<open>
  The parameter interfaces of the client, as declared: each property with its name, whether
  it is optional (declared with \<^verbatim>\<open>?\<close>) and its type. A number comes with the checks that the
  operation taking it makes on it before it sends; an interface by itself makes none.
\<close>

datatype ts_type =
    TString
  | TNumber "number_check list"
  | TBoolean
  | TDate
  | TLiterals "string list"
  | TArray ts_type
  | TRecord ts_type
  | TAny

definition CreateTaskParams :: "(string \<times> bool \<times> ts_type) list" where
  "CreateTaskParams =
     [(''title'', False, TString),
      (''list_id'', True, TString),
      (''location'', True, TLiterals [''start'', ''end'']),
      (''notes'', True, TString),
      (''due_at'', True, TDate),
      (''timeless_due_at'', True, TString),
      (''starts_at'', True, TDate),
      (''timeless_starts_at'', True, TString),
      (''duration_minutes'', True, TNumber []),
      (''label_names'', True, TArray TString),
      (''label_ids'', True, TArray TString),
      (''metadata'', True, TRecord TAny)]"

definition UpdateTaskParams :: "(string \<times> bool \<times> ts_type) list" where
  "UpdateTaskParams =
     [(''id'', False, TString),
      (''title'', True, TString),
      (''notes'', True, TString),
      (''due_at'', True, TDate),
      (''timeless_due_at'', True, TString),
      (''snoozed_until'', True, TDate),
      (''timeless_snoozed_until'', True, TString),
      (''starts_at'', True, TDate),
      (''timeless_starts_at'', True, TString),
      (''duration_minutes'', True, TNumber []),
      (''is_complete'', True, TBoolean),
      (''is_cleared'', True, TBoolean),
      (''add_label_names'', True, TArray TString),
      (''add_label_ids'', True, TArray TString),
      (''remove_label_names'', True, TArray TString),
      (''remove_label_ids'', True, TArray TString),
      (''metadata'', True, TRecord TAny)]"

definition ListTasksParams :: "(string \<times> bool \<times> ts_type) list" where
  "ListTasksParams =
     [(''status'', True, TLiterals [''incomplete'', ''complete'']),
      (''list_id'', True, TString),
      (''updated_before'', True, TString),
      (''updated_after'', True, TString)]"

definition DuplicateListParams :: "(string \<times> bool \<times> ts_type) list" where
  "DuplicateListParams = [(''name'', True, TString)]"

text \<open>
  The inputs of each client operation, from its signature and body: a parameter of an
  interface type contributes the interface's properties, any other parameter contributes
  itself. \<^verbatim>\<open>updateTask\<close> is the one operation that checks a number: it throws unless
  \<^verbatim>\<open>duration_minutes\<close> is \<^verbatim>\<open>undefined\<close> or passes \<^verbatim>\<open>Number.isInteger\<close> and is not \<^verbatim>\<open>< 0\<close>. \<^verbatim>\<open>createTask\<close> checks
  nothing.
\<close>

definition with_checks ::
  "string \<Rightarrow> number_check list \<Rightarrow> (string \<times> bool \<times> ts_type) list
     \<Rightarrow> (string \<times> bool \<times> ts_type) list" where
  "with_checks k checks inputs =
     map (\<lambda>(k', optional, t).
            (k', optional, (case t of TNumber none \<Rightarrow> if k' = k then TNumber checks else t | _ \<Rightarrow> t)))
       inputs"

definition client_inputs :: "string \<Rightarrow> (string \<times> bool \<times> ts_type) list" where
  "client_inputs operation =
     (if operation = ''createTask'' then CreateTaskParams
      else if operation = ''updateTask'' then
        with_checks ''duration_minutes'' [IntCheck, NonnegativeCheck] UpdateTaskParams
      else if operation = ''getTask'' then [(''id'', False, TString)]
      else if operation = ''deleteTask'' then [(''id'', False, TString)]
      else if operation = ''listTasks'' then ListTasksParams
      else if operation = ''getTaskLists'' then []
      else if operation = ''completeTask'' then [(''id'', False, TString)]
      else if operation = ''uncompleteTask'' then [(''id'', False, TString)]
      else if operation = ''duplicateList'' then (''listId'', False, TString) # DuplicateListParams
      else [])"

text \<open>
  The relation the specification asks for between a declared shape and the client's inputs:
  property by property, the same name, the same optionality and the same type, an
  enumeration listing the same values, a number under the same checks.
\<close>

fun zod_matches :: "zod \<Rightarrow> ts_type \<Rightarrow> bool" where
  "zod_matches ZString TString = True"
| "zod_matches ZDate TDate = True"
| "zod_matches ZBoolean TBoolean = True"
| "zod_matches (ZNumber checks) (TNumber checks') = (checks = checks')"
| "zod_matches (ZEnum options) (TLiterals values) = (options = values)"
| "zod_matches (ZArray z) (TArray t) = zod_matches z t"
| "zod_matches (ZRecord z) (TRecord t) = zod_matches z t"
| "zod_matches ZAny TAny = True"
| "zod_matches z t = False"

fun mirrors_field :: "string \<times> zod \<Rightarrow> string \<times> bool \<times> ts_type \<Rightarrow> bool" where
  "mirrors_field (k, ZOptional z) (k', optional, t) = (k = k' \<and> optional \<and> zod_matches z t)"
| "mirrors_field (k, z) (k', optional, t) = (k = k' \<and> \<not> optional \<and> zod_matches z t)"

definition mirrors :: "(string \<times> zod) list \<Rightarrow> (string \<times> bool \<times> ts_type) list \<Rightarrow> bool" where
  "mirrors shape inputs = list_all2 mirrors_field shape inputs"

definition required_arguments :: "(string \<times> zod) list \<Rightarrow> string list" where
  "required_arguments shape =
     map fst (filter (\<lambda>(k, z). case z of ZOptional z' \<Rightarrow> False | _ \<Rightarrow> True) shape)"

section \<open>Runtimes used to evaluate the operations\<close>

text \<open>
  Two stand-ins for the environment: a network that cannot be reached, and a remote that
  answers every request with the same status and body. Their conversions of numbers and
  dates to text are placeholders; no evaluation below converts one.
\<close>

definition offline :: runtime where
  "offline =
     \<lparr>fetch = (\<lambda>req. Rejected ''fetch failed''),
      Number_toString = (\<lambda>q. ''0''),
      Date_toString = (\<lambda>d. ''Invalid Date'')\<rparr>"

definition answering :: "nat \<Rightarrow> string + json \<Rightarrow> runtime" where
  "answering code answer =
     \<lparr>fetch = (\<lambda>req. Resolved \<lparr>status = code, json_body = answer\<rparr>),
      Number_toString = (\<lambda>q. ''0''),
      Date_toString = (\<lambda>d. ''Invalid Date'')\<rparr>"


section \<open>The failure convention\<close>

text \<open>
  The convention for reporting, written once, as a predicate on what an operation returned
  and sent. \<open>failure_message\<close> is the text taken from the body of a response that is not a
  success: the body's \<^verbatim>\<open>error\<close> member when it has one that is truthy, the operation's generic
  message otherwise; a body that is \<^verbatim>\<open>null\<close> has no members to read, and the error of reading
  it is reported instead.
\<close>

definition failure_message :: "runtime \<Rightarrow> string \<Rightarrow> json \<Rightarrow> string" where
  "failure_message rt generic doc =
     (case doc of
        JNull \<Rightarrow> null_property_message
      | JObj members \<Rightarrow>
          (case map_of members ''error'' of
             None \<Rightarrow> generic
           | Some e \<Rightarrow> if truthy (JSON_value e) then ToString rt (JSON_value e) else generic)
      | _ \<Rightarrow> generic)"

text \<open>
  An outcome follows the convention for an operation of the given name when: nothing was
  sent and the outcome is a failure whose message starts with \<^verbatim>\<open><name> error: \<close>; or one
  request was sent and the outcome is decided by its answer: the transport's message when
  there was no response, the parser's message when the body is not JSON, the parsed body
  when the status is a success, and \<open>failure_message\<close> otherwise, each failure under the
  same prefix.
\<close>

definition follows_convention ::
  "runtime \<Rightarrow> string \<Rightarrow> string \<Rightarrow> (string + jsval) \<times> request list \<Rightarrow> bool" where
  "follows_convention rt name generic outcome =
     (case snd outcome of
        [] \<Rightarrow>
          (case fst outcome of
             Inl m \<Rightarrow> take (length (name @ '' error: '')) m = name @ '' error: ''
           | Inr v \<Rightarrow> False)
      | [req] \<Rightarrow>
          (case fetch rt req of
             Rejected u \<Rightarrow> fst outcome = Inl (name @ '' error: '' @ u)
           | Resolved r \<Rightarrow>
               (case json_body r of
                  Inl u \<Rightarrow> fst outcome = Inl (name @ '' error: '' @ u)
                | Inr doc \<Rightarrow>
                    if ok r then fst outcome = Inr (JSON_value doc)
                    else fst outcome = Inl (name @ '' error: '' @ failure_message rt generic doc)))
      | _ \<Rightarrow> False)"

section \<open>Facts shared by the operations\<close>

lemma perform_Inl: "perform rt name generic (Inl m) = (Inl (name @ '' error: '' @ m), [])"
  by (simp add: perform_def)

lemma perform_Inr_sent: "snd (perform rt name generic (Inr req)) = [req]"
  by (simp add: perform_def split: sum.splits)

lemma perform_isl:
  "isl prepared \<Longrightarrow>
   isl (fst (perform rt name generic prepared)) \<and> snd (perform rt name generic prepared) = []"
  by (cases prepared) (simp_all add: perform_Inl)

lemma getAuthHeaders_token:
  "authToken c = Some token \<Longrightarrow> token \<noteq> [] \<Longrightarrow>
   getAuthHeaders c =
     Inr [(''Authorization'', ''Bearer '' @ token), (''Content-Type'', ''application/json'')]"
  by (simp add: getAuthHeaders_def)

lemma nonneg_integer:
  assumes "Number_isInteger (VNum n)" and "\<not> below_zero (VNum n)"
  shows "\<exists>k::nat. n = Finite (of_nat k)"
proof (cases n)
  case (Finite q)
  with assms obtain z where "q = of_int z" and "0 \<le> q" by auto
  then have "q = of_nat (nat z)" by simp
  with Finite show ?thesis by blast
qed (use assms in simp_all)

lemma zod_object_refused:
  assumes "(k, z) \<in> set shape" and "\<not> zod_check z (property args k)"
  shows "zod_object shape args = None"
  using assms by (auto simp add: zod_object_def list_all_iff)

section \<open>Authentication\<close>

text \<open>
  C2. On a client whose bearer token has not been set, each of the nine operations fails
  with a thrown error and makes no call to \<^verbatim>\<open>fetch\<close>, whatever its arguments and whatever the
  network would answer.
\<close>

theorem no_token_fails_without_request:
  assumes "authToken c = None"
  shows "isl (fst (createTask c rt params)) \<and> snd (createTask c rt params) = []
     \<and> isl (fst (updateTask c rt params)) \<and> snd (updateTask c rt params) = []
     \<and> isl (fst (getTask c rt ident)) \<and> snd (getTask c rt ident) = []
     \<and> isl (fst (deleteTask c rt ident)) \<and> snd (deleteTask c rt ident) = []
     \<and> isl (fst (listTasks c rt filters)) \<and> snd (listTasks c rt filters) = []
     \<and> isl (fst (getTaskLists c rt)) \<and> snd (getTaskLists c rt) = []
     \<and> isl (fst (completeTask c rt ident)) \<and> snd (completeTask c rt ident) = []
     \<and> isl (fst (uncompleteTask c rt ident)) \<and> snd (uncompleteTask c rt ident) = []
     \<and> isl (fst (duplicateList c rt listId options)) \<and> snd (duplicateList c rt listId options) = []"
  using assms
  by (simp add: createTask_def updateTask_def getTask_def deleteTask_def listTasks_def
      getTaskLists_def completeTask_def uncompleteTask_def duplicateList_def
      createTask_request_def updateTask_request_def getTask_request_def deleteTask_request_def
      listTasks_request_def getTaskLists_request_def duplicateList_request_def
      getAuthHeaders_def perform_Inl)

theorem no_token_fails_without_request_witness:
  "authToken createGodspeedClient = None
   \<and> isl (fst (createTask createGodspeedClient (answering 201 (Inr (JObj [])))
                 [(''title'', VStr ''Buy milk'')]))
   \<and> snd (createTask createGodspeedClient (answering 201 (Inr (JObj [])))
                 [(''title'', VStr ''Buy milk'')]) = []
   \<and> isl (fst (getTask createGodspeedClient (answering 201 (Inr (JObj []))) (VStr ''T1'')))
   \<and> snd (getTask createGodspeedClient (answering 201 (Inr (JObj []))) (VStr ''T1'')) = []
   \<and> isl (fst (getTaskLists createGodspeedClient (answering 201 (Inr (JObj [])))))
   \<and> snd (getTaskLists createGodspeedClient (answering 201 (Inr (JObj [])))) = []"
proof -
  have unset: "authToken createGodspeedClient = None"
    by (simp add: createGodspeedClient_def)
  show ?thesis
    using unset
      no_token_fails_without_request [OF unset,
        where rt = "answering 201 (Inr (JObj []))" and params = "[(''title'', VStr ''Buy milk'')]"
          and ident = "VStr ''T1''"]
    by simp
qed

section \<open>Validation before the request\<close>

lemma updateTask_request_conflict:
  assumes "(truthy (property p ''due_at'') \<and> truthy (property p ''timeless_due_at''))
         \<or> (truthy (property p ''snoozed_until'') \<and> truthy (property p ''timeless_snoozed_until''))
         \<or> (truthy (property p ''starts_at'') \<and> truthy (property p ''timeless_starts_at''))"
  shows "isl (updateTask_request c rt p)"
  using assms by (auto simp add: updateTask_request_def split: sum.splits)

lemma updateTask_request_duration:
  assumes "property p ''duration_minutes'' = VNum n" and "\<forall>k::nat. n \<noteq> Finite (of_nat k)"
  shows "isl (updateTask_request c rt p)"
proof -
  have "\<not> Number_isInteger (VNum n) \<or> below_zero (VNum n)"
    using nonneg_integer assms(2) by blast
  then show ?thesis
    using assms(1) by (auto simp add: updateTask_request_def split: sum.splits)
qed

lemma updateTask_request_malformed:
  assumes "(property p ''timeless_due_at'' = VStr s
            \<or> property p ''timeless_snoozed_until'' = VStr s
            \<or> property p ''timeless_starts_at'' = VStr s)"
      and "s \<noteq> []" and "\<not> YYYY_MM_DD_test s"
  shows "isl (updateTask_request c rt p)"
  using assms by (auto simp add: updateTask_request_def split: sum.splits)

lemma updateTask_rejects_malformed_timeless:
  assumes "(property p ''timeless_due_at'' = VStr s
            \<or> property p ''timeless_snoozed_until'' = VStr s
            \<or> property p ''timeless_starts_at'' = VStr s)"
      and "s \<noteq> []" and "\<not> YYYY_MM_DD_test s"
  shows "isl (fst (updateTask c rt p)) \<and> snd (updateTask c rt p) = []"
  unfolding updateTask_def
  using updateTask_request_malformed[OF assms] by (rule perform_isl)

lemma zod_duration:
  assumes "\<forall>k::nat. n \<noteq> Finite (of_nat k)"
  shows "\<not> zod_check (ZOptional (ZNumber [IntCheck, NonnegativeCheck])) (VNum n)"
  using nonneg_integer assms by auto

lemma createTask_sent:
  assumes "authToken c = Some token" and "token \<noteq> []"
  shows "snd (createTask c rt params) =
     [\<lparr>method = POST, url = API_BASE_URL @ ''/tasks'',
       headers = [(''Authorization'', ''Bearer '' @ token), (''Content-Type'', ''application/json'')],
       body = JSON_stringify (VObj params)\<rparr>]"
  using assms
  by (simp add: createTask_def createTask_request_def getAuthHeaders_token perform_Inr_sent)

text \<open>
  C1, as the code has it. An \<^verbatim>\<open>updateTask\<close> call that carries a Date in \<^verbatim>\<open>due_at\<close>, \<^verbatim>\<open>snoozed_until\<close>
  or \<^verbatim>\<open>starts_at\<close> together with a non-empty string in the timeless property of the same name
  fails with a thrown error and makes no call to \<^verbatim>\<open>fetch\<close>; when the token is set, the
  identifier is present and the pair is the due pair, the error is the conflict message.
  \<^verbatim>\<open>createTask\<close> has no such check: with a token it sends its parameters whatever they are.
\<close>

theorem updateTask_rejects_timed_with_timeless:
  assumes "(property p ''due_at'' = VDate d \<and> property p ''timeless_due_at'' = VStr s)
         \<or> (property p ''snoozed_until'' = VDate d \<and> property p ''timeless_snoozed_until'' = VStr s)
         \<or> (property p ''starts_at'' = VDate d \<and> property p ''timeless_starts_at'' = VStr s)"
      and "s \<noteq> []"
  shows "isl (fst (updateTask c rt p)) \<and> snd (updateTask c rt p) = []
     \<and> (authToken c = Some token \<and> token \<noteq> [] \<and> truthy (property p ''id'')
          \<and> property p ''due_at'' = VDate d \<and> property p ''timeless_due_at'' = VStr s
        \<longrightarrow> fst (updateTask c rt p) =
              Inl ''Update task error: Cannot specify both due_at and timeless_due_at'')
     \<and> (authToken c = Some token \<and> token \<noteq> []
        \<longrightarrow> snd (createTask c rt p) =
              [\<lparr>method = POST, url = API_BASE_URL @ ''/tasks'',
                headers = [(''Authorization'', ''Bearer '' @ token),
                           (''Content-Type'', ''application/json'')],
                body = JSON_stringify (VObj p)\<rparr>])"
proof -
  have "isl (updateTask_request c rt p)"
    using assms by (intro updateTask_request_conflict) auto
  then have "isl (fst (updateTask c rt p)) \<and> snd (updateTask c rt p) = []"
    unfolding updateTask_def by (rule perform_isl)
  moreover have "fst (updateTask c rt p) =
      Inl ''Update task error: Cannot specify both due_at and timeless_due_at''"
    if "authToken c = Some token" "token \<noteq> []" "truthy (property p ''id'')"
       "property p ''due_at'' = VDate d" "property p ''timeless_due_at'' = VStr s"
    using that assms(2)
    by (simp add: updateTask_def updateTask_request_def getAuthHeaders_token perform_Inl)
  ultimately show ?thesis
    using createTask_sent by blast
qed

theorem updateTask_rejects_timed_with_timeless_witness:
  "property [(''id'', VStr ''T1''), (''due_at'', VDate (ValidDate ''2025-01-01T09:00:00.000Z'')),
             (''timeless_due_at'', VStr ''2025-01-01'')] ''due_at''
     = VDate (ValidDate ''2025-01-01T09:00:00.000Z'')
   \<and> property [(''id'', VStr ''T1''), (''due_at'', VDate (ValidDate ''2025-01-01T09:00:00.000Z'')),
               (''timeless_due_at'', VStr ''2025-01-01'')] ''timeless_due_at''
     = VStr ''2025-01-01''
   \<and> updateTask (setAuthToken createGodspeedClient ''secret'') (answering 200 (Inr (JObj [])))
        [(''id'', VStr ''T1''), (''due_at'', VDate (ValidDate ''2025-01-01T09:00:00.000Z'')),
         (''timeless_due_at'', VStr ''2025-01-01'')]
     = (Inl ''Update task error: Cannot specify both due_at and timeless_due_at'', [])"
  using updateTask_rejects_timed_with_timeless
    [where p = "[(''id'', VStr ''T1''), (''due_at'', VDate (ValidDate ''2025-01-01T09:00:00.000Z'')),
                 (''timeless_due_at'', VStr ''2025-01-01'')]"
       and d = "ValidDate ''2025-01-01T09:00:00.000Z''" and s = "''2025-01-01''"
       and c = "setAuthToken createGodspeedClient ''secret''" and token = "''secret''"
       and rt = "answering 200 (Inr (JObj []))"]
  by (simp add: property_def setAuthToken_def createGodspeedClient_def prod_eq_iff)

theorem createTask_timed_with_timeless_counterexample:
  "property [(''title'', VStr ''Pay rent''),
             (''due_at'', VDate (ValidDate ''2025-01-01T09:00:00.000Z'')),
             (''timeless_due_at'', VStr ''2025-01-01'')] ''due_at'' \<noteq> VUndefined
   \<and> property [(''title'', VStr ''Pay rent''),
               (''due_at'', VDate (ValidDate ''2025-01-01T09:00:00.000Z'')),
               (''timeless_due_at'', VStr ''2025-01-01'')] ''timeless_due_at'' \<noteq> VUndefined
   \<and> createTask (setAuthToken createGodspeedClient ''secret'')
        (answering 201 (Inr (JObj [(''id'', JStr ''T9'')])))
        [(''title'', VStr ''Pay rent''),
         (''due_at'', VDate (ValidDate ''2025-01-01T09:00:00.000Z'')),
         (''timeless_due_at'', VStr ''2025-01-01'')]
     = (Inr (VObj [(''id'', VStr ''T9'')]),
        [\<lparr>method = POST, url = ''https://api.godspeedapp.com/tasks'',
          headers = [(''Authorization'', ''Bearer secret''),
                     (''Content-Type'', ''application/json'')],
          body = Some (JObj [(''title'', JStr ''Pay rent''),
                             (''due_at'', JStr ''2025-01-01T09:00:00.000Z''),
                             (''timeless_due_at'', JStr ''2025-01-01'')])\<rparr>])"
  by (simp add: property_def createTask_def createTask_request_def getAuthHeaders_def
      setAuthToken_def createGodspeedClient_def perform_def exchange_def answering_def ok_def
      API_BASE_URL_def)


text \<open>
  C8, evaluated where the code departs from it. The empty string does not have the shape
  \<^verbatim>\<open>YYYY-MM-DD\<close>, yet an \<^verbatim>\<open>updateTask\<close> call whose \<^verbatim>\<open>timeless_due_at\<close> is the empty string passes the
  format check (the check is guarded by the value's truthiness) and is sent to the remote
  with the empty string in its body. Every other string that does not have the shape is
  refused (\<open>updateTask_rejects_malformed_timeless\<close>).
\<close>

theorem updateTask_empty_timeless_due_at_sent:
  "property [(''id'', VStr ''T1''), (''timeless_due_at'', VStr [])] ''timeless_due_at'' = VStr []
   \<and> \<not> YYYY_MM_DD_test []
   \<and> updateTask (setAuthToken createGodspeedClient ''secret'')
        (answering 200 (Inr (JObj [(''id'', JStr ''T1'')])))
        [(''id'', VStr ''T1''), (''timeless_due_at'', VStr [])]
     = (Inr (VObj [(''id'', VStr ''T1'')]),
        [\<lparr>method = PATCH, url = ''https://api.godspeedapp.com/tasks/T1'',
          headers = [(''Authorization'', ''Bearer secret''),
                     (''Content-Type'', ''application/json'')],
          body = Some (JObj [(''timeless_due_at'', JStr [])])\<rparr>])"
  by (simp add: property_def YYYY_MM_DD_test_def updateTask_def updateTask_request_def
      getAuthHeaders_def setAuthToken_def createGodspeedClient_def perform_def exchange_def
      answering_def ok_def API_BASE_URL_def)

lemma zod_object_createTask_duration:
  assumes "property args ''duration_minutes'' = VNum n" and "\<forall>k::nat. n \<noteq> Finite (of_nat k)"
  shows "zod_object createTask_shape args = None"
  using zod_duration[OF assms(2)] assms(1)
  by (intro zod_object_refused[where k = "''duration_minutes''"
        and z = "ZOptional (ZNumber [IntCheck, NonnegativeCheck])"])
     (simp_all add: createTask_shape_def)

lemma zod_object_updateTask_duration:
  assumes "property args ''duration_minutes'' = VNum n" and "\<forall>k::nat. n \<noteq> Finite (of_nat k)"
  shows "zod_object updateTask_shape args = None"
  using zod_duration[OF assms(2)] assms(1)
  by (intro zod_object_refused[where k = "''duration_minutes''"
        and z = "ZOptional (ZNumber [IntCheck, NonnegativeCheck])"])
     (simp_all add: updateTask_shape_def)

text \<open>
  C9, as the code has it. When \<^verbatim>\<open>duration_minutes\<close> is a number that is not a non-negative
  integer (negative, fractional, NaN or infinite), \<^verbatim>\<open>updateTask\<close> fails with a thrown error
  and makes no call to \<^verbatim>\<open>fetch\<close>, and the declared shapes of the \<^verbatim>\<open>updateTask\<close> and
  \<^verbatim>\<open>createTask\<close> tools refuse the arguments, so that a call through the dispatcher never
  reaches the handler. The client's own \<^verbatim>\<open>createTask\<close> does not look at the value.
\<close>

theorem bad_duration_rejected:
  assumes "property p ''duration_minutes'' = VNum n" and "\<forall>k::nat. n \<noteq> Finite (of_nat k)"
  shows "isl (fst (updateTask c rt p)) \<and> snd (updateTask c rt p) = []
       \<and> callTool c rt ''updateTask'' p = (InvalidArguments, [])
       \<and> callTool c rt ''createTask'' p = (InvalidArguments, [])"
proof -
  have "isl (updateTask_request c rt p)"
    using assms by (rule updateTask_request_duration)
  then have "isl (fst (updateTask c rt p)) \<and> snd (updateTask c rt p) = []"
    unfolding updateTask_def by (rule perform_isl)
  moreover have "callTool c rt ''updateTask'' p = (InvalidArguments, [])"
    using zod_object_updateTask_duration[OF assms] by (simp add: callTool_def tools_def)
  moreover have "callTool c rt ''createTask'' p = (InvalidArguments, [])"
    using zod_object_createTask_duration[OF assms] by (simp add: callTool_def tools_def)
  ultimately show ?thesis by simp
qed

theorem bad_duration_rejected_witness:
  "property [(''id'', VStr ''T1''), (''title'', VStr ''Call''), (''duration_minutes'', VNum (Finite (- 5)))]
      ''duration_minutes'' = VNum (Finite (- 5))
   \<and> (\<forall>k::nat. Finite (- 5) \<noteq> Finite (of_nat k))
   \<and> updateTask (setAuthToken createGodspeedClient ''secret'') (answering 200 (Inr (JObj [])))
        [(''id'', VStr ''T1''), (''title'', VStr ''Call''), (''duration_minutes'', VNum (Finite (- 5)))]
      = (Inl ''Update task error: duration_minutes must be a positive integer'', [])
   \<and> callTool (setAuthToken createGodspeedClient ''secret'') (answering 200 (Inr (JObj []))) ''createTask''
        [(''id'', VStr ''T1''), (''title'', VStr ''Call''), (''duration_minutes'', VNum (Finite (- 5)))]
      = (InvalidArguments, [])"
proof -
  have neg: "\<forall>k::nat. Finite (- 5) \<noteq> Finite (of_nat k)"
  proof
    fix k :: nat
    have "(0::rat) \<le> of_nat k" by simp
    then show "Finite (- 5) \<noteq> Finite (of_nat k)" by auto
  qed
  have dur: "property [(''id'', VStr ''T1''), (''title'', VStr ''Call''), (''duration_minutes'', VNum (Finite (- 5)))]
      ''duration_minutes'' = VNum (Finite (- 5))"
    by (simp add: property_def)
  have msg: "fst (updateTask (setAuthToken createGodspeedClient ''secret'') (answering 200 (Inr (JObj [])))
        [(''id'', VStr ''T1''), (''title'', VStr ''Call''), (''duration_minutes'', VNum (Finite (- 5)))])
      = Inl ''Update task error: duration_minutes must be a positive integer''"
    by (simp add: property_def updateTask_def updateTask_request_def
      getAuthHeaders_def setAuthToken_def createGodspeedClient_def perform_def)
  show ?thesis
    using neg dur msg
      bad_duration_rejected [OF dur neg,
        where c = "setAuthToken createGodspeedClient ''secret''"
          and rt = "answering 200 (Inr (JObj []))"]
    by (simp add: prod_eq_iff)
qed

theorem createTask_bad_duration_counterexample:
  "property [(''title'', VStr ''Call''), (''duration_minutes'', VNum (Finite (- 5)))]
      ''duration_minutes'' = VNum (Finite (- 5))
   \<and> createTask (setAuthToken createGodspeedClient ''secret'')
        (answering 201 (Inr (JObj [(''id'', JStr ''T9'')])))
        [(''title'', VStr ''Call''), (''duration_minutes'', VNum (Finite (- 5)))]
     = (Inr (VObj [(''id'', VStr ''T9'')]),
        [\<lparr>method = POST, url = ''https://api.godspeedapp.com/tasks'',
          headers = [(''Authorization'', ''Bearer secret''),
                     (''Content-Type'', ''application/json'')],
          body = Some (JObj [(''title'', JStr ''Call''), (''duration_minutes'', JNum (- 5))])\<rparr>])"
  by (simp add: property_def createTask_def createTask_request_def getAuthHeaders_def
      setAuthToken_def createGodspeedClient_def perform_def exchange_def answering_def ok_def
      API_BASE_URL_def)

section \<open>Completion\<close>

lemma updateTask_completion_request:
  assumes "authToken c = Some token" and "token \<noteq> []" and "truthy ident"
  shows "updateTask_request c rt [(''id'', ident), (''is_complete'', VBool b)] =
     Inr \<lparr>method = PATCH, url = API_BASE_URL @ ''/tasks/'' @ ToString rt ident,
          headers = [(''Authorization'', ''Bearer '' @ token), (''Content-Type'', ''application/json'')],
          body = Some (JObj [(''is_complete'', JBool b)])\<rparr>"
  using assms by (simp add: updateTask_request_def getAuthHeaders_token property_def)

text \<open>
  C6. \<^verbatim>\<open>completeTask(id)\<close> is \<^verbatim>\<open>updateTask({id, is_complete: true})\<close> and \<^verbatim>\<open>uncompleteTask(id)\<close> is
  \<^verbatim>\<open>updateTask({id, is_complete: false})\<close>: the same outcome and the same calls to \<^verbatim>\<open>fetch\<close>. With
  a token and an identifier, each sends one PATCH to the task's path whose body holds the
  completion flag alone, and the two requests differ in that flag only; without an
  identifier both fail as \<^verbatim>\<open>updateTask\<close> does.
\<close>

theorem complete_uncomplete_delegate:
  "completeTask c rt ident = updateTask c rt [(''id'', ident), (''is_complete'', VBool True)]
   \<and> uncompleteTask c rt ident = updateTask c rt [(''id'', ident), (''is_complete'', VBool False)]
   \<and> (authToken c = Some token \<and> token \<noteq> [] \<and> truthy ident \<longrightarrow>
        snd (completeTask c rt ident) =
          [\<lparr>method = PATCH, url = API_BASE_URL @ ''/tasks/'' @ ToString rt ident,
            headers = [(''Authorization'', ''Bearer '' @ token),
                       (''Content-Type'', ''application/json'')],
            body = Some (JObj [(''is_complete'', JBool True)])\<rparr>]
      \<and> snd (uncompleteTask c rt ident) =
          [\<lparr>method = PATCH, url = API_BASE_URL @ ''/tasks/'' @ ToString rt ident,
            headers = [(''Authorization'', ''Bearer '' @ token),
                       (''Content-Type'', ''application/json'')],
            body = Some (JObj [(''is_complete'', JBool False)])\<rparr>])
   \<and> (authToken c = Some token \<and> token \<noteq> [] \<and> \<not> truthy ident \<longrightarrow>
        completeTask c rt ident = (Inl ''Update task error: Task ID is required'', [])
      \<and> uncompleteTask c rt ident = (Inl ''Update task error: Task ID is required'', []))"
  by (simp add: completeTask_def uncompleteTask_def updateTask_def updateTask_completion_request
      perform_Inr_sent)
     (simp add: updateTask_request_def getAuthHeaders_token property_def perform_Inl)

theorem complete_uncomplete_delegate_witness:
  "authToken (setAuthToken createGodspeedClient ''secret'') = Some ''secret''
   \<and> truthy (VStr ''T1'')
   \<and> completeTask (setAuthToken createGodspeedClient ''secret'')
        (answering 200 (Inr (JObj [(''id'', JStr ''T1''), (''is_complete'', JBool True)]))) (VStr ''T1'')
     = updateTask (setAuthToken createGodspeedClient ''secret'')
        (answering 200 (Inr (JObj [(''id'', JStr ''T1''), (''is_complete'', JBool True)])))
        [(''id'', VStr ''T1''), (''is_complete'', VBool True)]
   \<and> snd (completeTask (setAuthToken createGodspeedClient ''secret'')
        (answering 200 (Inr (JObj [(''id'', JStr ''T1''), (''is_complete'', JBool True)]))) (VStr ''T1''))
     = [\<lparr>method = PATCH, url = ''https://api.godspeedapp.com/tasks/T1'',
            headers = [(''Authorization'', ''Bearer secret''),
                       (''Content-Type'', ''application/json'')],
            body = Some (JObj [(''is_complete'', JBool True)])\<rparr>]
   \<and> snd (uncompleteTask (setAuthToken createGodspeedClient ''secret'')
        (answering 200 (Inr (JObj [(''id'', JStr ''T1''), (''is_complete'', JBool True)]))) (VStr ''T1''))
     = [\<lparr>method = PATCH, url = ''https://api.godspeedapp.com/tasks/T1'',
            headers = [(''Authorization'', ''Bearer secret''),
                       (''Content-Type'', ''application/json'')],
            body = Some (JObj [(''is_complete'', JBool False)])\<rparr>]"
  using complete_uncomplete_delegate
    [where c = "setAuthToken createGodspeedClient ''secret''" and token = "''secret''"
       and ident = "VStr ''T1''"
       and rt = "answering 200 (Inr (JObj [(''id'', JStr ''T1''), (''is_complete'', JBool True)]))"]
  by (auto simp add: setAuthToken_def createGodspeedClient_def API_BASE_URL_def)

section \<open>Duplicating a list\<close>

lemma exchange_ok:
  assumes "fetch rt req = Resolved r" and "json_body r = Inr doc" and "ok r"
  shows "exchange rt generic req = Inr (JSON_value doc)"
  using assms by (simp add: exchange_def)

lemma perform_ok:
  assumes "fetch rt req = Resolved r" and "json_body r = Inr doc" and "ok r"
  shows "perform rt name generic (Inr req) = (Inr (JSON_value doc), [req])"
  using exchange_ok[OF assms] by (simp add: perform_def)

text \<open>
  C7. Without a list identifier (\<^verbatim>\<open>undefined\<close>, or any other falsy value such as the empty
  string) \<^verbatim>\<open>duplicateList\<close> fails with 'List ID is required' and makes no call to \<^verbatim>\<open>fetch\<close>. With
  an identifier, on a client whose token is set, it makes exactly one call: a POST to
  \<^verbatim>\<open>/lists/<id>/duplicate\<close> whose body is \<^verbatim>\<open>{"name": <name>}\<close> when a name is given and \<^verbatim>\<open>{}\<close> when no
  parameters are given; when the remote answers with status 200 or 201 and a JSON body,
  the operation returns that body. The tool's handler passes the name on when it is not
  empty, and no parameters otherwise.
\<close>

theorem duplicateList_posts_to_duplicate_path:
  "(\<not> truthy listId \<longrightarrow>
      duplicateList c rt listId params = (Inl ''Duplicate list error: List ID is required'', []))
   \<and> (truthy listId \<and> authToken c = Some token \<and> token \<noteq> [] \<longrightarrow>
        snd (duplicateList c rt listId (Some [(''name'', VStr name)])) =
          [\<lparr>method = POST,
            url = API_BASE_URL @ ''/lists/'' @ ToString rt listId @ ''/duplicate'',
            headers = [(''Authorization'', ''Bearer '' @ token),
                       (''Content-Type'', ''application/json'')],
            body = Some (JObj [(''name'', JStr name)])\<rparr>]
      \<and> snd (duplicateList c rt listId None) =
          [\<lparr>method = POST,
            url = API_BASE_URL @ ''/lists/'' @ ToString rt listId @ ''/duplicate'',
            headers = [(''Authorization'', ''Bearer '' @ token),
                       (''Content-Type'', ''application/json'')],
            body = Some (JObj [])\<rparr>]
      \<and> (\<forall>code doc.
            fetch rt
              \<lparr>method = POST,
               url = API_BASE_URL @ ''/lists/'' @ ToString rt listId @ ''/duplicate'',
               headers = [(''Authorization'', ''Bearer '' @ token),
                          (''Content-Type'', ''application/json'')],
               body = Some (JObj [(''name'', JStr name)])\<rparr>
              = Resolved \<lparr>status = code, json_body = Inr doc\<rparr>
            \<and> (code = 200 \<or> code = 201)
            \<longrightarrow> fst (duplicateList c rt listId (Some [(''name'', VStr name)])) = Inr (JSON_value doc)))
   \<and> duplicateList_tool c rt [(''list_id'', listId), (''name'', VStr name)] =
       reply (duplicateList c rt listId (if name \<noteq> [] then Some [(''name'', VStr name)] else None))"
proof -
  have tool: "duplicateList_tool c rt [(''list_id'', listId), (''name'', VStr name)] =
       reply (duplicateList c rt listId (if name \<noteq> [] then Some [(''name'', VStr name)] else None))"
    by (simp add: duplicateList_tool_def property_def)
  have missing: "duplicateList c rt listId params = (Inl ''Duplicate list error: List ID is required'', [])"
    if "\<not> truthy listId"
    using that by (simp add: duplicateList_def duplicateList_request_def perform_Inl)
  have prepared: "duplicateList_request c rt listId ps =
      Inr \<lparr>method = POST,
           url = API_BASE_URL @ ''/lists/'' @ ToString rt listId @ ''/duplicate'',
           headers = [(''Authorization'', ''Bearer '' @ token),
                      (''Content-Type'', ''application/json'')],
           body = JSON_stringify (VObj (case ps of None \<Rightarrow> [] | Some p \<Rightarrow> p))\<rparr>"
    if "truthy listId" "authToken c = Some token" "token \<noteq> []" for ps
    using that by (simp add: duplicateList_request_def getAuthHeaders_token)
  have returned: "fst (duplicateList c rt listId (Some [(''name'', VStr name)])) = Inr (JSON_value doc)"
    if "truthy listId" "authToken c = Some token" "token \<noteq> []"
      and "fetch rt
              \<lparr>method = POST,
               url = API_BASE_URL @ ''/lists/'' @ ToString rt listId @ ''/duplicate'',
               headers = [(''Authorization'', ''Bearer '' @ token),
                          (''Content-Type'', ''application/json'')],
               body = Some (JObj [(''name'', JStr name)])\<rparr>
              = Resolved \<lparr>status = code, json_body = Inr doc\<rparr>"
      and "code = 200 \<or> code = 201" for code doc
  proof -
    have "ok \<lparr>status = code, json_body = Inr doc\<rparr>"
      using that(5) by (auto simp add: ok_def)
    with that(4) show ?thesis
      using prepared[OF that(1-3), of "Some [(''name'', VStr name)]"]
      by (simp add: duplicateList_def perform_ok[where r = "\<lparr>status = code, json_body = Inr doc\<rparr>"])
  qed
  show ?thesis
    using missing returned tool
    by (auto simp add: duplicateList_def prepared perform_Inr_sent)
qed

theorem duplicateList_posts_to_duplicate_path_witness:
  "truthy (VStr ''L1'')
   \<and> authToken (setAuthToken createGodspeedClient ''secret'') = Some ''secret''
   \<and> \<not> truthy VUndefined
   \<and> duplicateList (setAuthToken createGodspeedClient ''secret'')
        (answering 201 (Inr (JObj [(''id'', JStr ''L2''), (''name'', JStr ''Copy'')])))
        VUndefined (Some [(''name'', VStr ''Copy'')])
     = (Inl ''Duplicate list error: List ID is required'', [])
   \<and> duplicateList (setAuthToken createGodspeedClient ''secret'')
        (answering 201 (Inr (JObj [(''id'', JStr ''L2''), (''name'', JStr ''Copy'')])))
        (VStr ''L1'') (Some [(''name'', VStr ''Copy'')])
     = (Inr (VObj [(''id'', VStr ''L2''), (''name'', VStr ''Copy'')]),
        [\<lparr>method = POST, url = ''https://api.godspeedapp.com/lists/L1/duplicate'',
          headers = [(''Authorization'', ''Bearer secret''),
                     (''Content-Type'', ''application/json'')],
          body = Some (JObj [(''name'', JStr ''Copy'')])\<rparr>])"
proof -
  let ?c = "setAuthToken createGodspeedClient ''secret''"
  let ?rt = "answering 201 (Inr (JObj [(''id'', JStr ''L2''), (''name'', JStr ''Copy'')]))"
  have token: "authToken ?c = Some ''secret''"
    by (simp add: setAuthToken_def)
  have answer: "fetch ?rt req =
      Resolved \<lparr>status = 201, json_body = Inr (JObj [(''id'', JStr ''L2''), (''name'', JStr ''Copy'')])\<rparr>" for req
    by (simp add: answering_def)
  note fact = duplicateList_posts_to_duplicate_path
    [where c = ?c and rt = ?rt and token = "''secret''" and name = "''Copy''"]
  have absent: "duplicateList ?c ?rt VUndefined (Some [(''name'', VStr ''Copy'')])
      = (Inl ''Duplicate list error: List ID is required'', [])"
    using fact[where listId = VUndefined and params = "Some [(''name'', VStr ''Copy'')]"] by simp
  have sent: "snd (duplicateList ?c ?rt (VStr ''L1'') (Some [(''name'', VStr ''Copy'')]))
      = [\<lparr>method = POST, url = ''https://api.godspeedapp.com/lists/L1/duplicate'',
          headers = [(''Authorization'', ''Bearer secret''),
                     (''Content-Type'', ''application/json'')],
          body = Some (JObj [(''name'', JStr ''Copy'')])\<rparr>]"
    using fact[where listId = "VStr ''L1''"] token by (simp add: API_BASE_URL_def)
  have got: "fst (duplicateList ?c ?rt (VStr ''L1'') (Some [(''name'', VStr ''Copy'')]))
      = Inr (VObj [(''id'', VStr ''L2''), (''name'', VStr ''Copy'')])"
    using fact[where listId = "VStr ''L1''"] token answer by simp
  show ?thesis
    using token absent sent got by (simp add: prod_eq_iff)
qed

section \<open>Request bodies\<close>

lemma JSON_stringify_None: "JSON_stringify v = None \<longleftrightarrow> v = VUndefined"
  by (induction v rule: JSON_stringify.induct) simp_all

lemma stringify_members:
  "list_all2 (\<lambda>m p. fst m = fst p \<and> JSON_stringify (snd p) = Some (snd m))
     (concat (map (\<lambda>(k, v). case JSON_stringify v of None \<Rightarrow> [] | Some j \<Rightarrow> [(k, j)]) kvs))
     (filter (\<lambda>p. snd p \<noteq> VUndefined) kvs)"
proof (induction kvs)
  case Nil
  show ?case by simp
next
  case (Cons kv kvs)
  obtain k v where kv: "kv = (k, v)" by (cases kv)
  show ?case
  proof (cases "JSON_stringify v")
    case None
    then have "v = VUndefined" by (simp add: JSON_stringify_None)
    with Cons kv show ?thesis by simp
  next
    case (Some j)
    then have "v \<noteq> VUndefined" by auto
    with Cons kv Some show ?thesis by simp
  qed
qed

lemma perform_sent_cases:
  "snd (perform rt name generic prepared) = (case prepared of Inl m \<Rightarrow> [] | Inr req \<Rightarrow> [req])"
  by (cases prepared) (simp_all add: perform_Inl perform_Inr_sent)

lemma updateTask_request_Inr:
  assumes "updateTask_request c rt params = Inr req"
  shows "method req = PATCH
       \<and> url req = API_BASE_URL @ ''/tasks/'' @ ToString rt (property params ''id'')
       \<and> body req = JSON_stringify (VObj (filter (\<lambda>(k, v). k \<noteq> ''id'') params))"
  using assms
  by (simp add: updateTask_request_def split: sum.splits if_splits) auto

lemma filter_rest:
  "filter (\<lambda>p. snd p \<noteq> VUndefined) (filter (\<lambda>(k, v). k \<noteq> ''id'') params)
   = filter (\<lambda>p. fst p \<noteq> ''id'' \<and> snd p \<noteq> VUndefined) params"
  by (induction params) auto

text \<open>
  C4. On a client whose token is set, \<^verbatim>\<open>createTask\<close> makes one call whose body is a JSON
  object with one member for each property of the parameters that has a value, in the
  same order and under the same name, holding that value as JSON, and no other member.
  Whenever \<^verbatim>\<open>updateTask\<close> makes a call, it is one PATCH to \<^verbatim>\<open>/tasks/<id>\<close> whose body has one
  member for each property other than \<^verbatim>\<open>id\<close> that has a value, in the same way; \<^verbatim>\<open>id\<close> is not
  among the members. \<^verbatim>\<open>updateTask\<close> never makes more than one call.
\<close>

theorem bodies_hold_the_supplied_fields:
  assumes "authToken c = Some token" and "token \<noteq> []"
  shows "(\<exists>members.
            snd (createTask c rt params) =
              [\<lparr>method = POST, url = API_BASE_URL @ ''/tasks'',
                headers = [(''Authorization'', ''Bearer '' @ token),
                           (''Content-Type'', ''application/json'')],
                body = Some (JObj members)\<rparr>]
          \<and> list_all2 (\<lambda>m p. fst m = fst p \<and> JSON_stringify (snd p) = Some (snd m))
               members (filter (\<lambda>p. snd p \<noteq> VUndefined) params))
       \<and> (\<forall>req. snd (updateTask c rt params) = [req] \<longrightarrow>
            (\<exists>members.
               method req = PATCH
             \<and> url req = API_BASE_URL @ ''/tasks/'' @ ToString rt (property params ''id'')
             \<and> body req = Some (JObj members)
             \<and> list_all2 (\<lambda>m p. fst m = fst p \<and> JSON_stringify (snd p) = Some (snd m))
                  members (filter (\<lambda>p. fst p \<noteq> ''id'' \<and> snd p \<noteq> VUndefined) params)
             \<and> ''id'' \<notin> fst ` set members))
       \<and> length (snd (updateTask c rt params)) \<le> 1"
proof -
  let ?members = "\<lambda>kvs. concat (map (\<lambda>(k, v). case JSON_stringify v of None \<Rightarrow> [] | Some j \<Rightarrow> [(k, j)]) kvs)"
  have create: "snd (createTask c rt params) =
              [\<lparr>method = POST, url = API_BASE_URL @ ''/tasks'',
                headers = [(''Authorization'', ''Bearer '' @ token),
                           (''Content-Type'', ''application/json'')],
                body = Some (JObj (?members params))\<rparr>]"
    using createTask_sent[OF assms] by simp
  have update: "\<exists>members.
               method req = PATCH
             \<and> url req = API_BASE_URL @ ''/tasks/'' @ ToString rt (property params ''id'')
             \<and> body req = Some (JObj members)
             \<and> list_all2 (\<lambda>m p. fst m = fst p \<and> JSON_stringify (snd p) = Some (snd m))
                  members (filter (\<lambda>p. fst p \<noteq> ''id'' \<and> snd p \<noteq> VUndefined) params)
             \<and> ''id'' \<notin> fst ` set members"
    if "snd (updateTask c rt params) = [req]" for req
  proof -
    let ?rest = "filter (\<lambda>(k, v). k \<noteq> ''id'') params"
    from that have "updateTask_request c rt params = Inr req"
      by (simp add: updateTask_def perform_sent_cases split: sum.splits)
    then have req: "method req = PATCH"
      "url req = API_BASE_URL @ ''/tasks/'' @ ToString rt (property params ''id'')"
      "body req = Some (JObj (?members ?rest))"
      using updateTask_request_Inr by simp_all
    have corr: "list_all2 (\<lambda>m p. fst m = fst p \<and> JSON_stringify (snd p) = Some (snd m))
        (?members ?rest) (filter (\<lambda>p. fst p \<noteq> ''id'' \<and> snd p \<noteq> VUndefined) params)"
      using stringify_members[of ?rest] by (simp only: filter_rest)
    have "''id'' \<notin> fst ` set (?members ?rest)"
      by (auto split: option.splits)
    with req corr show ?thesis by blast
  qed
  have "length (snd (updateTask c rt params)) \<le> 1"
    by (simp add: updateTask_def perform_sent_cases split: sum.splits)
  with create update stringify_members[of params] show ?thesis
    by blast
qed

theorem bodies_hold_the_supplied_fields_witness:
  "authToken (setAuthToken createGodspeedClient ''secret'') = Some ''secret''
   \<and> snd (createTask (setAuthToken createGodspeedClient ''secret'') offline
        [(''title'', VStr ''Buy milk''), (''list_id'', VStr ''L1''), (''notes'', VUndefined)])
     = [\<lparr>method = POST, url = ''https://api.godspeedapp.com/tasks'',
          headers = [(''Authorization'', ''Bearer secret''),
                     (''Content-Type'', ''application/json'')],
          body = Some (JObj [(''title'', JStr ''Buy milk''), (''list_id'', JStr ''L1'')])\<rparr>]
   \<and> snd (updateTask (setAuthToken createGodspeedClient ''secret'') offline
        [(''id'', VStr ''T1''), (''title'', VStr ''Buy oat milk''), (''notes'', VUndefined)])
     = [\<lparr>method = PATCH, url = ''https://api.godspeedapp.com/tasks/T1'',
          headers = [(''Authorization'', ''Bearer secret''),
                     (''Content-Type'', ''application/json'')],
          body = Some (JObj [(''title'', JStr ''Buy oat milk'')])\<rparr>]
   \<and> (\<exists>members.
         body (hd (snd (updateTask (setAuthToken createGodspeedClient ''secret'') offline
           [(''id'', VStr ''T1''), (''title'', VStr ''Buy oat milk''), (''notes'', VUndefined)])))
           = Some (JObj members)
         \<and> ''id'' \<notin> fst ` set members)"
proof -
  let ?c = "setAuthToken createGodspeedClient ''secret''"
  let ?u = "[(''id'', VStr ''T1''), (''title'', VStr ''Buy oat milk''), (''notes'', VUndefined)]"
  have token: "authToken ?c = Some ''secret''"
    by (simp add: setAuthToken_def)
  have created: "snd (createTask ?c offline
        [(''title'', VStr ''Buy milk''), (''list_id'', VStr ''L1''), (''notes'', VUndefined)])
     = [\<lparr>method = POST, url = ''https://api.godspeedapp.com/tasks'',
          headers = [(''Authorization'', ''Bearer secret''),
                     (''Content-Type'', ''application/json'')],
          body = Some (JObj [(''title'', JStr ''Buy milk''), (''list_id'', JStr ''L1'')])\<rparr>]"
    by (simp add: createTask_def createTask_request_def getAuthHeaders_def setAuthToken_def
        perform_Inr_sent API_BASE_URL_def)
  have updated: "snd (updateTask ?c offline ?u)
     = [\<lparr>method = PATCH, url = ''https://api.godspeedapp.com/tasks/T1'',
          headers = [(''Authorization'', ''Bearer secret''),
                     (''Content-Type'', ''application/json'')],
          body = Some (JObj [(''title'', JStr ''Buy oat milk'')])\<rparr>]"
    by (simp add: updateTask_def updateTask_request_def getAuthHeaders_def setAuthToken_def
        property_def perform_Inr_sent API_BASE_URL_def)
  have "\<exists>members.
         body (hd (snd (updateTask ?c offline ?u))) = Some (JObj members)
         \<and> ''id'' \<notin> fst ` set members"
    using bodies_hold_the_supplied_fields [OF token, where rt = offline and params = ?u] updated
    by auto
  with token created updated show ?thesis
    by blast
qed

section \<open>The query string of listTasks\<close>

lemma join_empty_iff:
  "join sep xs = [] \<longleftrightarrow> (xs = [] \<or> (sep = [] \<or> length xs = 1) \<and> (\<forall>x \<in> set xs. x = []))"
  by (induction sep xs rule: join.induct) auto

lemma join_segments_nonempty:
  assumes "xs \<noteq> []" and "\<forall>x \<in> set xs. x \<noteq> []"
  shows "join sep xs \<noteq> []"
  using assms by (cases xs) (auto simp add: join_empty_iff)

lemma queryParams_empty_iff:
  "queryParams rt (Some filters) = [] \<longleftrightarrow> filter (\<lambda>(k, v). v \<noteq> VUndefined) filters = []"
proof -
  let ?segments = "map (\<lambda>(key, value). key @ ''='' @ encodeURIComponent (ToString rt value))
      (filter (\<lambda>(key, value). value \<noteq> VUndefined) filters)"
  have "\<forall>x \<in> set ?segments. x \<noteq> []" by auto
  then have "join ''&'' ?segments = [] \<longleftrightarrow> ?segments = []"
    using join_segments_nonempty[of ?segments] by auto
  then show ?thesis
    by (simp add: queryParams_def)
qed

lemma zod_object_properties:
  assumes "zod_object shape args = Some parsed"
  shows "map fst parsed = filter (\<lambda>k. k \<in> set (map fst args)) (map fst shape)"
proof -
  from assms have "parsed = map (\<lambda>(k, z). (k, property args k))
      (filter (\<lambda>(k, z). k \<in> set (map fst args)) shape)"
    by (simp add: zod_object_def split: if_splits)
  then show ?thesis
    by (simp add: filter_map comp_def case_prod_unfold)
qed

lemma hex_digit_unreserved: "unreserved (hex_digit n)"
proof -
  have "n mod 16 < length ''0123456789ABCDEF''" by simp
  then have "hex_digit n \<in> set ''0123456789ABCDEF''"
    unfolding hex_digit_def by (rule nth_mem)
  then show ?thesis
    by (auto simp add: unreserved_def)
qed

lemma encodeURIComponent_chars:
  "ch \<in> set (encodeURIComponent s) \<Longrightarrow> unreserved ch \<or> ch = CHR ''%''"
  by (auto simp add: encodeURIComponent_def percent_encode_def hex_digit_unreserved split: if_splits)

lemma encodeURIComponent_unreserved:
  "\<forall>ch \<in> set s. unreserved ch \<Longrightarrow> encodeURIComponent s = s"
  by (induction s) (simp_all add: encodeURIComponent_def)

text \<open>
  C5. On a client whose token is set, \<^verbatim>\<open>listTasks\<close> makes one GET call. Its address is the
  base path alone when no filter object is given or no property of it has a value;
  otherwise it is the base path, \<^verbatim>\<open>?\<close>, and one \<^verbatim>\<open>key=value\<close> segment for each property that has a
  value and for no other, in the order of the properties, joined by \<^verbatim>\<open>&\<close>, where the value
  is the escaped text of the property's value. Escaped text consists of unreserved
  characters and \<^verbatim>\<open>%\<close> only, and text of unreserved characters is left as it is. The
  filters \<^verbatim>\<open>{list_id: "L1", completed: false}\<close> give \<^verbatim>\<open>/tasks?list_id=L1&completed=false\<close>.
  Arguments that come through the dispatcher reach the operation as the declared
  properties they hold, in the declared order.
\<close>

theorem listTasks_query_string:
  assumes "authToken c = Some token" and "token \<noteq> []"
  shows "snd (listTasks c rt (Some filters)) =
           [\<lparr>method = GET,
             url = API_BASE_URL @ ''/tasks''
                   @ (if filter (\<lambda>(k, v). v \<noteq> VUndefined) filters = [] then []
                      else ''?'' @ join ''&''
                             (map (\<lambda>(k, v). k @ ''='' @ encodeURIComponent (ToString rt v))
                                (filter (\<lambda>(k, v). v \<noteq> VUndefined) filters))),
             headers = [(''Authorization'', ''Bearer '' @ token),
                        (''Content-Type'', ''application/json'')],
             body = None\<rparr>]
       \<and> snd (listTasks c rt None) =
           [\<lparr>method = GET, url = API_BASE_URL @ ''/tasks'',
             headers = [(''Authorization'', ''Bearer '' @ token),
                        (''Content-Type'', ''application/json'')],
             body = None\<rparr>]
       \<and> (\<forall>ch \<in> set (encodeURIComponent s). unreserved ch \<or> ch = CHR ''%'')
       \<and> ((\<forall>ch \<in> set s. unreserved ch) \<longrightarrow> encodeURIComponent s = s)
       \<and> snd (listTasks c rt (Some [(''list_id'', VStr ''L1''), (''completed'', VBool False)])) =
           [\<lparr>method = GET,
             url = ''https://api.godspeedapp.com/tasks?list_id=L1&completed=false'',
             headers = [(''Authorization'', ''Bearer '' @ token),
                        (''Content-Type'', ''application/json'')],
             body = None\<rparr>]
       \<and> (\<forall>parsed. zod_object listTasks_shape args = Some parsed \<longrightarrow>
            map fst parsed =
              filter (\<lambda>k. k \<in> set (map fst args))
                [''status'', ''list_id'', ''updated_before'', ''updated_after''])"
proof -
  have declared: "\<forall>parsed. zod_object listTasks_shape args = Some parsed \<longrightarrow>
            map fst parsed =
              filter (\<lambda>k. k \<in> set (map fst args))
                [''status'', ''list_id'', ''updated_before'', ''updated_after'']"
    using zod_object_properties[of listTasks_shape args] by (simp add: listTasks_shape_def)
  have general: "snd (listTasks c rt (Some fs)) =
           [\<lparr>method = GET,
             url = API_BASE_URL @ ''/tasks''
                   @ (if filter (\<lambda>(k, v). v \<noteq> VUndefined) fs = [] then []
                      else ''?'' @ join ''&''
                             (map (\<lambda>(k, v). k @ ''='' @ encodeURIComponent (ToString rt v))
                                (filter (\<lambda>(k, v). v \<noteq> VUndefined) fs))),
             headers = [(''Authorization'', ''Bearer '' @ token),
                        (''Content-Type'', ''application/json'')],
             body = None\<rparr>]" for fs
    using assms queryParams_empty_iff[of rt fs]
    by (simp add: listTasks_def listTasks_request_def getAuthHeaders_token perform_Inr_sent)
       (simp add: queryParams_def)
  have none: "snd (listTasks c rt None) =
           [\<lparr>method = GET, url = API_BASE_URL @ ''/tasks'',
             headers = [(''Authorization'', ''Bearer '' @ token),
                        (''Content-Type'', ''application/json'')],
             body = None\<rparr>]"
    using assms
    by (simp add: listTasks_def listTasks_request_def getAuthHeaders_token perform_Inr_sent
        queryParams_def)
  have example: "snd (listTasks c rt (Some [(''list_id'', VStr ''L1''), (''completed'', VBool False)])) =
           [\<lparr>method = GET,
             url = ''https://api.godspeedapp.com/tasks?list_id=L1&completed=false'',
             headers = [(''Authorization'', ''Bearer '' @ token),
                        (''Content-Type'', ''application/json'')],
             body = None\<rparr>]"
    by (simp add: general API_BASE_URL_def encodeURIComponent_def unreserved_def)
  have escaped: "\<forall>ch \<in> set (encodeURIComponent s). unreserved ch \<or> ch = CHR ''%''"
    using encodeURIComponent_chars by blast
  have plain: "(\<forall>ch \<in> set s. unreserved ch) \<longrightarrow> encodeURIComponent s = s"
    using encodeURIComponent_unreserved by blast
  show ?thesis
    by (intro conjI general none escaped plain example declared)
qed

theorem listTasks_query_string_witness:
  "authToken (setAuthToken createGodspeedClient ''secret'') = Some ''secret''
   \<and> snd (listTasks (setAuthToken createGodspeedClient ''secret'') offline
        (Some [(''status'', VUndefined), (''list_id'', VStr ''a b&c''), (''updated_after'', VStr ''2025-01-01'')]))
     = [\<lparr>method = GET,
          url = ''https://api.godspeedapp.com/tasks?list_id=a%20b%26c&updated_after=2025-01-01'',
          headers = [(''Authorization'', ''Bearer secret''),
                     (''Content-Type'', ''application/json'')],
          body = None\<rparr>]
   \<and> snd (listTasks (setAuthToken createGodspeedClient ''secret'') offline (Some [(''status'', VUndefined)]))
     = [\<lparr>method = GET, url = ''https://api.godspeedapp.com/tasks'',
          headers = [(''Authorization'', ''Bearer secret''),
                     (''Content-Type'', ''application/json'')],
          body = None\<rparr>]
   \<and> snd (listTasks (setAuthToken createGodspeedClient ''secret'') offline
        (Some [(''list_id'', VStr ''L1''), (''completed'', VBool False)]))
     = [\<lparr>method = GET,
          url = ''https://api.godspeedapp.com/tasks?list_id=L1&completed=false'',
          headers = [(''Authorization'', ''Bearer secret''),
                     (''Content-Type'', ''application/json'')],
          body = None\<rparr>]
   \<and> encodeURIComponent ''L1'' = ''L1''"
proof -
  let ?c = "setAuthToken createGodspeedClient ''secret''"
  have token: "authToken ?c = Some ''secret''"
    by (simp add: setAuthToken_def)
  have nonempty: "''secret'' \<noteq> []"
    by simp
  note fact = listTasks_query_string [OF token nonempty, where rt = offline]
  have first: "snd (listTasks ?c offline
        (Some [(''status'', VUndefined), (''list_id'', VStr ''a b&c''), (''updated_after'', VStr ''2025-01-01'')]))
     = [\<lparr>method = GET,
          url = ''https://api.godspeedapp.com/tasks?list_id=a%20b%26c&updated_after=2025-01-01'',
          headers = [(''Authorization'', ''Bearer secret''),
                     (''Content-Type'', ''application/json'')],
          body = None\<rparr>]"
    using fact[where filters = "[(''status'', VUndefined), (''list_id'', VStr ''a b&c''), (''updated_after'', VStr ''2025-01-01'')]"]
    by (simp add: API_BASE_URL_def encodeURIComponent_def unreserved_def percent_encode_def hex_digit_def)
  have second: "snd (listTasks ?c offline (Some [(''status'', VUndefined)]))
     = [\<lparr>method = GET, url = ''https://api.godspeedapp.com/tasks'',
          headers = [(''Authorization'', ''Bearer secret''),
                     (''Content-Type'', ''application/json'')],
          body = None\<rparr>]"
    using fact[where filters = "[(''status'', VUndefined)]"]
    by (simp add: API_BASE_URL_def)
  have third: "encodeURIComponent ''L1'' = ''L1''"
    using fact[where s = "''L1''"] by (simp add: unreserved_def)
  have fourth: "snd (listTasks ?c offline (Some [(''list_id'', VStr ''L1''), (''completed'', VBool False)]))
     = [\<lparr>method = GET,
          url = ''https://api.godspeedapp.com/tasks?list_id=L1&completed=false'',
          headers = [(''Authorization'', ''Bearer secret''),
                     (''Content-Type'', ''application/json'')],
          body = None\<rparr>]"
    using fact[where filters = "[]" and s = "[]",
        THEN conjunct2, THEN conjunct2, THEN conjunct2, THEN conjunct2]
    by simp
  show ?thesis
    by (intro conjI token first second fourth third)
qed

section \<open>Failures\<close>

lemma JSON_value_defined: "JSON_value j \<noteq> VUndefined"
  by (cases j) simp_all

lemma property_JSON_value:
  "property (map (\<lambda>(k, j). (k, JSON_value j)) members) k =
     (case map_of members k of None \<Rightarrow> VUndefined | Some e \<Rightarrow> JSON_value e)"
  by (induction members) (auto simp add: property_def)

lemma read_error_message:
  "(case read_error (JSON_value doc) of
      Inl m \<Rightarrow> Inl m
    | Inr e \<Rightarrow> Inl (if truthy e then ToString rt e else generic))
   = (Inl (failure_message rt generic doc) :: string + jsval)"
  by (cases doc) (simp_all add: failure_message_def property_JSON_value split: option.splits)

lemma exchange_cases:
  "exchange rt generic req =
     (case fetch rt req of
        Rejected u \<Rightarrow> Inl u
      | Resolved r \<Rightarrow>
          (case json_body r of
             Inl u \<Rightarrow> Inl u
           | Inr doc \<Rightarrow>
               if ok r then Inr (JSON_value doc) else Inl (failure_message rt generic doc)))"
  by (simp add: exchange_def Let_def read_error_message
      split: fetch_outcome.splits sum.splits)

lemma perform_follows_convention:
  "follows_convention rt name generic (perform rt name generic prepared)"
proof (cases prepared)
  case (Inl m)
  then show ?thesis
    by (simp add: follows_convention_def perform_Inl)
next
  case (Inr req)
  then show ?thesis
    by (simp add: follows_convention_def perform_def exchange_cases
        split: fetch_outcome.splits sum.splits)
qed

lemma elements_roundtrip:
  assumes "\<forall>x \<in> set xs. JSON_stringify (JSON_value x) = Some x"
  shows "map (\<lambda>x. case JSON_stringify x of None \<Rightarrow> JNull | Some j \<Rightarrow> j) (map JSON_value xs) = xs"
  using assms by (induction xs) simp_all

lemma members_roundtrip:
  assumes "\<forall>p \<in> set kvs. JSON_stringify (JSON_value (snd p)) = Some (snd p)"
  shows "concat (map (\<lambda>(k, v). case JSON_stringify v of None \<Rightarrow> [] | Some j \<Rightarrow> [(k, j)])
      (map (\<lambda>(k, j). (k, JSON_value j)) kvs)) = kvs"
  using assms by (induction kvs) auto

lemma JSON_roundtrip: "JSON_stringify (JSON_value j) = Some j"
proof (induction j rule: JSON_value.induct)
  case (5 xs)
  then have "\<forall>x \<in> set xs. JSON_stringify (JSON_value x) = Some x"
    by simp
  then show ?case using elements_roundtrip[of xs] by simp
next
  case (6 kvs)
  then have "\<forall>p \<in> set kvs. JSON_stringify (JSON_value (snd p)) = Some (snd p)"
    by auto
  then show ?case using members_roundtrip[of kvs] by simp
qed simp_all

lemma perform_outcome:
  "(\<exists>u. fst (perform rt name generic prepared) = Inl (name @ '' error: '' @ u))
   \<or> (\<exists>doc. fst (perform rt name generic prepared) = Inr (JSON_value doc))"
  by (cases prepared)
     (auto simp add: perform_def exchange_cases split: fetch_outcome.splits sum.splits)

lemma reply_outcome:
  assumes "(\<exists>u. fst outcome = Inl u) \<or> (\<exists>doc. fst outcome = Inr (JSON_value doc))"
  shows "(\<exists>m. fst (reply outcome) = PlainText (''Error: '' @ m))
       \<or> (\<exists>doc. fst (reply outcome) = JsonText (Some doc))"
  using assms by (auto simp add: reply_def JSON_roundtrip)

lemma reply_failure: "fst outcome = Inl m \<Longrightarrow> fst (reply outcome) = PlainText (''Error: '' @ m)"
  by (simp add: reply_def)

lemma reply_perform:
  "(\<exists>m. fst (reply (perform rt name generic prepared)) = PlainText (''Error: '' @ m))
   \<or> (\<exists>doc. fst (reply (perform rt name generic prepared)) = JsonText (Some doc))"
  using perform_outcome[of rt name generic prepared] by (intro reply_outcome) blast

lemma handler_text:
  assumes "(name, shape, handler) \<in> set tools"
  shows "(\<exists>m. fst (handler c rt parsed) = PlainText (''Error: '' @ m))
       \<or> (\<exists>doc. fst (handler c rt parsed) = JsonText (Some doc))"
proof -
  from assms consider
      "handler = listTasks_tool" | "handler = getTask_tool" | "handler = createTask_tool"
    | "handler = updateTask_tool" | "handler = deleteTask_tool" | "handler = completeTask_tool"
    | "handler = uncompleteTask_tool" | "handler = getTaskLists_tool" | "handler = duplicateList_tool"
    by (auto simp add: tools_def)
  then show ?thesis
  proof cases
    case 1
    then show ?thesis
      by (simp only: listTasks_tool_def listTasks_def reply_perform)
  next
    case 2
    then show ?thesis
      by (simp only: getTask_tool_def getTask_def reply_perform)
  next
    case 3
    then show ?thesis
      by (simp only: createTask_tool_def createTask_def reply_perform)
  next
    case 4
    then show ?thesis
      by (simp only: updateTask_tool_def updateTask_def reply_perform)
  next
    case 5
    then show ?thesis
      by (simp only: deleteTask_tool_def deleteTask_def reply_perform)
  next
    case 6
    then show ?thesis
      by (simp only: completeTask_tool_def completeTask_def updateTask_def reply_perform)
  next
    case 7
    then show ?thesis
      by (simp only: uncompleteTask_tool_def uncompleteTask_def updateTask_def reply_perform)
  next
    case 8
    then show ?thesis
      by (simp only: getTaskLists_tool_def getTaskLists_def reply_perform)
  next
    case 9
    then show ?thesis
      by (simp only: duplicateList_tool_def duplicateList_def Let_def reply_perform)
  qed
qed

lemma callTool_text:
  assumes "callTool c rt name args = (Returned t, sent)"
  shows "(\<exists>m. t = PlainText (''Error: '' @ m)) \<or> (\<exists>doc. t = JsonText (Some doc))"
proof -
  from assms obtain shape handler parsed
    where tool: "map_of tools name = Some (shape, handler)"
      and ran: "handler c rt parsed = (t, sent)"
    by (auto simp add: callTool_def split: option.splits prod.splits)
  from tool have "(name, shape, handler) \<in> set tools"
    by (rule map_of_SomeD)
  from handler_text[OF this, of c rt parsed] ran show ?thesis
    by simp
qed

text \<open>
  C3, as the code has it. Every outcome of every client operation follows the one
  convention: a failure is a thrown error whose message is \<^verbatim>\<open><name> error: \<close> followed by the
  underlying message, the name being the operation's own (\<^verbatim>\<open>Update task\<close> for \<^verbatim>\<open>completeTask\<close> and
  \<^verbatim>\<open>uncompleteTask\<close>, which delegate). After a response that is not a success the underlying
  message is the body's \<^verbatim>\<open>error\<close> member when the body is JSON and the member is truthy, the
  generic message of the operation when the body is JSON without such a member, and the
  message of the error raised while reading the body when it is not JSON or is \<^verbatim>\<open>null\<close>; when
  no response was obtained it is the transport's message. Every handler turns a failure of
  the client with message \<open>m\<close> into the text \<^verbatim>\<open>Error: m\<close>, and whatever a tool call returns is
  such a line or the JSON text of the response: a handler has no other way out.
\<close>

theorem failures_follow_one_convention:
  "follows_convention rt ''Create task'' ''Failed to create task'' (createTask c rt params)
   \<and> follows_convention rt ''Update task'' ''Failed to update task'' (updateTask c rt params)
   \<and> follows_convention rt ''Get task'' ''Failed to get task'' (getTask c rt ident)
   \<and> follows_convention rt ''Delete task'' ''Failed to delete task'' (deleteTask c rt ident)
   \<and> follows_convention rt ''List tasks'' ''Failed to list tasks'' (listTasks c rt filters)
   \<and> follows_convention rt ''Get task lists'' ''Failed to get task lists'' (getTaskLists c rt)
   \<and> follows_convention rt ''Update task'' ''Failed to update task'' (completeTask c rt ident)
   \<and> follows_convention rt ''Update task'' ''Failed to update task'' (uncompleteTask c rt ident)
   \<and> follows_convention rt ''Duplicate list'' ''Failed to duplicate list''
        (duplicateList c rt listId options)
   \<and> (\<forall>m. fst (listTasks c rt (Some args)) = Inl m
          \<longrightarrow> fst (listTasks_tool c rt args) = PlainText (''Error: '' @ m))
   \<and> (\<forall>m. fst (getTask c rt (property args ''id'')) = Inl m
          \<longrightarrow> fst (getTask_tool c rt args) = PlainText (''Error: '' @ m))
   \<and> (\<forall>m. fst (createTask c rt args) = Inl m
          \<longrightarrow> fst (createTask_tool c rt args) = PlainText (''Error: '' @ m))
   \<and> (\<forall>m. fst (updateTask c rt args) = Inl m
          \<longrightarrow> fst (updateTask_tool c rt args) = PlainText (''Error: '' @ m))
   \<and> (\<forall>m. fst (deleteTask c rt (property args ''id'')) = Inl m
          \<longrightarrow> fst (deleteTask_tool c rt args) = PlainText (''Error: '' @ m))
   \<and> (\<forall>m. fst (completeTask c rt (property args ''id'')) = Inl m
          \<longrightarrow> fst (completeTask_tool c rt args) = PlainText (''Error: '' @ m))
   \<and> (\<forall>m. fst (uncompleteTask c rt (property args ''id'')) = Inl m
          \<longrightarrow> fst (uncompleteTask_tool c rt args) = PlainText (''Error: '' @ m))
   \<and> (\<forall>m. fst (getTaskLists c rt) = Inl m
          \<longrightarrow> fst (getTaskLists_tool c rt args) = PlainText (''Error: '' @ m))
   \<and> (\<forall>m. fst (duplicateList c rt (property args ''list_id'')
                 (if truthy (property args ''name'') then Some [(''name'', property args ''name'')]
                  else None)) = Inl m
          \<longrightarrow> fst (duplicateList_tool c rt args) = PlainText (''Error: '' @ m))
   \<and> (\<forall>t sent. callTool c rt name args = (Returned t, sent)
          \<longrightarrow> (\<exists>m. t = PlainText (''Error: '' @ m)) \<or> (\<exists>doc. t = JsonText (Some doc)))"
proof -
  have client:
    "follows_convention rt ''Create task'' ''Failed to create task'' (createTask c rt params)"
    "follows_convention rt ''Update task'' ''Failed to update task'' (updateTask c rt params)"
    "follows_convention rt ''Get task'' ''Failed to get task'' (getTask c rt ident)"
    "follows_convention rt ''Delete task'' ''Failed to delete task'' (deleteTask c rt ident)"
    "follows_convention rt ''List tasks'' ''Failed to list tasks'' (listTasks c rt filters)"
    "follows_convention rt ''Get task lists'' ''Failed to get task lists'' (getTaskLists c rt)"
    "follows_convention rt ''Update task'' ''Failed to update task'' (completeTask c rt ident)"
    "follows_convention rt ''Update task'' ''Failed to update task'' (uncompleteTask c rt ident)"
    "follows_convention rt ''Duplicate list'' ''Failed to duplicate list''
        (duplicateList c rt listId options)"
    unfolding createTask_def updateTask_def getTask_def deleteTask_def listTasks_def
      getTaskLists_def completeTask_def uncompleteTask_def duplicateList_def
    by (rule perform_follows_convention)+
  have handlers:
    "\<forall>m. fst (listTasks c rt (Some args)) = Inl m
          \<longrightarrow> fst (listTasks_tool c rt args) = PlainText (''Error: '' @ m)"
    "\<forall>m. fst (getTask c rt (property args ''id'')) = Inl m
          \<longrightarrow> fst (getTask_tool c rt args) = PlainText (''Error: '' @ m)"
    "\<forall>m. fst (createTask c rt args) = Inl m
          \<longrightarrow> fst (createTask_tool c rt args) = PlainText (''Error: '' @ m)"
    "\<forall>m. fst (updateTask c rt args) = Inl m
          \<longrightarrow> fst (updateTask_tool c rt args) = PlainText (''Error: '' @ m)"
    "\<forall>m. fst (deleteTask c rt (property args ''id'')) = Inl m
          \<longrightarrow> fst (deleteTask_tool c rt args) = PlainText (''Error: '' @ m)"
    "\<forall>m. fst (completeTask c rt (property args ''id'')) = Inl m
          \<longrightarrow> fst (completeTask_tool c rt args) = PlainText (''Error: '' @ m)"
    "\<forall>m. fst (uncompleteTask c rt (property args ''id'')) = Inl m
          \<longrightarrow> fst (uncompleteTask_tool c rt args) = PlainText (''Error: '' @ m)"
    "\<forall>m. fst (getTaskLists c rt) = Inl m
          \<longrightarrow> fst (getTaskLists_tool c rt args) = PlainText (''Error: '' @ m)"
    "\<forall>m. fst (duplicateList c rt (property args ''list_id'')
                 (if truthy (property args ''name'') then Some [(''name'', property args ''name'')]
                  else None)) = Inl m
          \<longrightarrow> fst (duplicateList_tool c rt args) = PlainText (''Error: '' @ m)"
    by (simp_all add: listTasks_tool_def getTask_tool_def createTask_tool_def updateTask_tool_def
        deleteTask_tool_def completeTask_tool_def uncompleteTask_tool_def getTaskLists_tool_def
        duplicateList_tool_def Let_def reply_failure)
  have dispatch: "\<forall>t sent. callTool c rt name args = (Returned t, sent)
          \<longrightarrow> (\<exists>m. t = PlainText (''Error: '' @ m)) \<or> (\<exists>doc. t = JsonText (Some doc))"
    using callTool_text by blast
  show ?thesis
    by (intro conjI client handlers dispatch)
qed

theorem failures_follow_one_convention_witness:
  "getTask (setAuthToken createGodspeedClient ''secret'')
      (answering 404 (Inr (JObj [(''error'', JStr ''not found'')]))) (VStr ''missing'')
     = (Inl ''Get task error: not found'',
        [\<lparr>method = GET, url = ''https://api.godspeedapp.com/tasks/missing'',
          headers = [(''Authorization'', ''Bearer secret''),
                     (''Content-Type'', ''application/json'')],
          body = None\<rparr>])
   \<and> follows_convention (answering 404 (Inr (JObj [(''error'', JStr ''not found'')])))
        ''Get task'' ''Failed to get task''
        (getTask (setAuthToken createGodspeedClient ''secret'')
           (answering 404 (Inr (JObj [(''error'', JStr ''not found'')]))) (VStr ''missing''))
   \<and> fst (getTask_tool (setAuthToken createGodspeedClient ''secret'')
           (answering 404 (Inr (JObj [(''error'', JStr ''not found'')])))
           [(''id'', VStr ''missing'')])
     = PlainText ''Error: Get task error: not found''"
proof -
  let ?c = "setAuthToken createGodspeedClient ''secret''"
  let ?rt = "answering 404 (Inr (JObj [(''error'', JStr ''not found'')]))"
  have run: "getTask ?c ?rt (VStr ''missing'')
     = (Inl ''Get task error: not found'',
        [\<lparr>method = GET, url = ''https://api.godspeedapp.com/tasks/missing'',
          headers = [(''Authorization'', ''Bearer secret''),
                     (''Content-Type'', ''application/json'')],
          body = None\<rparr>])"
    by (simp add: getTask_def getTask_request_def getAuthHeaders_def setAuthToken_def
        perform_def exchange_def answering_def ok_def property_def API_BASE_URL_def)
  note fact = failures_follow_one_convention
    [where c = ?c and rt = ?rt and ident = "VStr ''missing''" and args = "[(''id'', VStr ''missing'')]"]
  have convention: "follows_convention ?rt ''Get task'' ''Failed to get task''
      (getTask ?c ?rt (VStr ''missing''))"
    by (rule fact[THEN conjunct2, THEN conjunct2, THEN conjunct1])
  have "fst (getTask ?c ?rt (property [(''id'', VStr ''missing'')] ''id''))
      = Inl ''Get task error: not found''"
    using run by (simp add: property_def)
  moreover have "\<forall>m. fst (getTask ?c ?rt (property [(''id'', VStr ''missing'')] ''id'')) = Inl m
      \<longrightarrow> fst (getTask_tool ?c ?rt [(''id'', VStr ''missing'')]) = PlainText (''Error: '' @ m)"
    by (rule fact[THEN conjunct2, THEN conjunct2, THEN conjunct2, THEN conjunct2, THEN conjunct2,
          THEN conjunct2, THEN conjunct2, THEN conjunct2, THEN conjunct2, THEN conjunct2,
          THEN conjunct1])
  ultimately have line: "fst (getTask_tool ?c ?rt [(''id'', VStr ''missing'')])
      = PlainText ''Error: Get task error: not found''"
    by simp
  show ?thesis
    by (intro conjI run convention line)
qed

theorem getTask_unparsable_error_body_counterexample:
  "getTask (setAuthToken createGodspeedClient ''secret'')
      (answering 502 (Inl ''Unexpected token < in JSON at position 0'')) (VStr ''T1'')
     = (Inl ''Get task error: Unexpected token < in JSON at position 0'',
        [\<lparr>method = GET, url = ''https://api.godspeedapp.com/tasks/T1'',
          headers = [(''Authorization'', ''Bearer secret''),
                     (''Content-Type'', ''application/json'')],
          body = None\<rparr>])
   \<and> \<not> ok \<lparr>status = 502, json_body = Inl ''Unexpected token < in JSON at position 0''\<rparr>
   \<and> ''Get task error: Unexpected token < in JSON at position 0''
       \<noteq> ''Get task error: Failed to get task''"
  by (simp add: getTask_def getTask_request_def getAuthHeaders_def setAuthToken_def
      perform_def exchange_def answering_def ok_def API_BASE_URL_def)

section \<open>Declared shapes\<close>

lemma duration_schema_accepts:
  "zod_check (ZOptional (ZNumber [IntCheck, NonnegativeCheck])) v
   \<longleftrightarrow> v = VUndefined \<or> (Number_isInteger v \<and> \<not> below_zero v)"
proof (cases v)
  case (VNum n)
  then show ?thesis by (cases n) auto
qed simp_all

lemma property_Cons:
  "property ((k, v) # q) k' = (if k' = k then v else property q k')"
  by (simp add: property_def)

lemma perform_nothing_sent:
  "snd (perform rt name generic prepared) = [] \<longleftrightarrow> isl prepared"
  by (cases prepared) (simp_all add: perform_Inl perform_Inr_sent)

lemma updateTask_request_duration_check:
  assumes "property q ''duration_minutes'' = VUndefined"
  shows "isl (updateTask_request c rt ((''duration_minutes'', v) # q))
     \<longleftrightarrow> isl (updateTask_request c rt q)
         \<or> \<not> zod_check (ZOptional (ZNumber [IntCheck, NonnegativeCheck])) v"
proof -
  define accepted where "accepted = zod_check (ZOptional (ZNumber [IntCheck, NonnegativeCheck])) v"
  have refused: "v \<noteq> VUndefined \<and> (\<not> Number_isInteger v \<or> below_zero v) \<longleftrightarrow> \<not> accepted"
    unfolding accepted_def using duration_schema_accepts[of v] by blast
  have "isl (updateTask_request c rt ((''duration_minutes'', v) # q))
     \<longleftrightarrow> isl (updateTask_request c rt q) \<or> \<not> accepted"
  proof (cases "getAuthHeaders c")
    case (Inl m)
    then show ?thesis by (simp add: updateTask_request_def)
  next
    case (Inr hs)
    then show ?thesis
      using refused assms by (auto simp add: updateTask_request_def property_Cons)
  qed
  then show ?thesis
    unfolding accepted_def .
qed

text \<open>
  C10, as the code has it. For every registered tool other than \<^verbatim>\<open>getTaskLists\<close>, \<^verbatim>\<open>createTask\<close>
  and \<^verbatim>\<open>duplicateList\<close> the declared shape mirrors the inputs of the client operation of the
  same name: the same properties under the same names in the same order, required where
  the client's is required and optional where it is optional, of the same type, an
  enumeration listing the same values (\<^verbatim>\<open>incomplete\<close>/\<^verbatim>\<open>complete\<close>), a number under the same
  checks. For \<^verbatim>\<open>updateTask\<close> this includes the duration: the shape declares an optional
  non-negative integer, and adding a duration to the parameters makes the client's
  \<^verbatim>\<open>updateTask\<close> fail without a request exactly when that schema refuses the value (or the
  call failed already). The shape of \<^verbatim>\<open>createTask\<close> mirrors the client's inputs (with
  \<^verbatim>\<open>start\<close>/\<^verbatim>\<open>end\<close>) in everything but the duration: it declares the same non-negative integer,
  while the client's \<^verbatim>\<open>createTask\<close> makes no check and sends whatever duration it is given. The
  shape of \<^verbatim>\<open>duplicateList\<close> mirrors the client's inputs except that it calls the identifier
  \<^verbatim>\<open>list_id\<close> where the client's parameter is \<^verbatim>\<open>listId\<close>. The \<^verbatim>\<open>getTaskLists\<close> tool declares one required
  string argument, \<^verbatim>\<open>random_string\<close>, though the client operation takes no input; its handler
  does not read it.
\<close>

theorem shapes_mirror_client_inputs:
  "list_all (\<lambda>(name, shape, handler).
       name = ''getTaskLists'' \<or> name = ''createTask'' \<or> name = ''duplicateList''
       \<or> mirrors shape (client_inputs name)) tools
   \<and> map fst tools =
       [''listTasks'', ''getTask'', ''createTask'', ''updateTask'', ''deleteTask'',
        ''completeTask'', ''uncompleteTask'', ''getTaskLists'', ''duplicateList'']
   \<and> map_of listTasks_shape ''status'' = Some (ZOptional (ZEnum [''incomplete'', ''complete'']))
   \<and> map_of updateTask_shape ''duration_minutes''
       = Some (ZOptional (ZNumber [IntCheck, NonnegativeCheck]))
   \<and> (zod_check (ZOptional (ZNumber [IntCheck, NonnegativeCheck])) v
        \<longleftrightarrow> v = VUndefined \<or> (Number_isInteger v \<and> \<not> below_zero v))
   \<and> (property q ''duration_minutes'' = VUndefined \<longrightarrow>
        (snd (updateTask c rt ((''duration_minutes'', v) # q)) = []
         \<longleftrightarrow> snd (updateTask c rt q) = []
             \<or> \<not> zod_check (ZOptional (ZNumber [IntCheck, NonnegativeCheck])) v))
   \<and> createTask_shape ! 8
       = (''duration_minutes'', ZOptional (ZNumber [IntCheck, NonnegativeCheck]))
   \<and> map_of createTask_shape ''location'' = Some (ZOptional (ZEnum [''start'', ''end'']))
   \<and> mirrors (createTask_shape[8 := (''duration_minutes'', ZOptional (ZNumber []))])
        (client_inputs ''createTask'')
   \<and> \<not> mirrors createTask_shape (client_inputs ''createTask'')
   \<and> (authToken c = Some token \<and> token \<noteq> [] \<longrightarrow>
        snd (createTask c rt ((''duration_minutes'', v) # q)) \<noteq> [])
   \<and> client_inputs ''duplicateList'' = (''listId'', False, TString) # DuplicateListParams
   \<and> mirrors duplicateList_shape ((''list_id'', False, TString) # DuplicateListParams)
   \<and> client_inputs ''getTaskLists'' = []
   \<and> required_arguments getTaskLists_shape = [''random_string'']
   \<and> getTaskLists_tool c rt args = getTaskLists_tool c rt []"
proof -
  have mirrored:
    "list_all (\<lambda>(name, shape, handler).
       name = ''getTaskLists'' \<or> name = ''createTask'' \<or> name = ''duplicateList''
       \<or> mirrors shape (client_inputs name)) tools"
    by (simp add: tools_def mirrors_def client_inputs_def with_checks_def
        listTasks_shape_def getTask_shape_def updateTask_shape_def
        deleteTask_shape_def completeTask_shape_def uncompleteTask_shape_def
        ListTasksParams_def UpdateTaskParams_def)
  have names: "map fst tools =
       [''listTasks'', ''getTask'', ''createTask'', ''updateTask'', ''deleteTask'',
        ''completeTask'', ''uncompleteTask'', ''getTaskLists'', ''duplicateList'']"
    by (simp add: tools_def)
  have schemas:
    "map_of listTasks_shape ''status'' = Some (ZOptional (ZEnum [''incomplete'', ''complete'']))"
    "map_of updateTask_shape ''duration_minutes''
       = Some (ZOptional (ZNumber [IntCheck, NonnegativeCheck]))"
    by (simp_all add: listTasks_shape_def updateTask_shape_def)
  have update: "property q ''duration_minutes'' = VUndefined \<longrightarrow>
        (snd (updateTask c rt ((''duration_minutes'', v) # q)) = []
         \<longleftrightarrow> snd (updateTask c rt q) = []
             \<or> \<not> zod_check (ZOptional (ZNumber [IntCheck, NonnegativeCheck])) v)"
    unfolding updateTask_def perform_nothing_sent
    using updateTask_request_duration_check by blast
  have create:
    "createTask_shape ! 8
       = (''duration_minutes'', ZOptional (ZNumber [IntCheck, NonnegativeCheck]))"
    "map_of createTask_shape ''location'' = Some (ZOptional (ZEnum [''start'', ''end'']))"
    "mirrors (createTask_shape[8 := (''duration_minutes'', ZOptional (ZNumber []))])
        (client_inputs ''createTask'')"
    "\<not> mirrors createTask_shape (client_inputs ''createTask'')"
    by (simp_all add: createTask_shape_def mirrors_def client_inputs_def CreateTaskParams_def)
  have unguarded: "authToken c = Some token \<and> token \<noteq> [] \<longrightarrow>
        snd (createTask c rt ((''duration_minutes'', v) # q)) \<noteq> []"
    using createTask_sent[of c token rt "(''duration_minutes'', v) # q"] by simp
  have duplicate:
    "client_inputs ''duplicateList'' = (''listId'', False, TString) # DuplicateListParams"
    "mirrors duplicateList_shape ((''list_id'', False, TString) # DuplicateListParams)"
    by (simp_all add: client_inputs_def mirrors_def duplicateList_shape_def DuplicateListParams_def)
  have lists:
    "client_inputs ''getTaskLists'' = []"
    "required_arguments getTaskLists_shape = [''random_string'']"
    "getTaskLists_tool c rt args = getTaskLists_tool c rt []"
    by (simp_all add: client_inputs_def required_arguments_def getTaskLists_shape_def
        getTaskLists_tool_def)
  show ?thesis
    by (intro conjI mirrored names schemas duration_schema_accepts update create unguarded
        duplicate lists)
qed

theorem shapes_mirror_client_inputs_witness:
  "mirrors updateTask_shape (client_inputs ''updateTask'')
   \<and> mirrors listTasks_shape (client_inputs ''listTasks'')
   \<and> property [(''id'', VStr ''T1'')] ''duration_minutes'' = VUndefined
   \<and> \<not> zod_check (ZOptional (ZNumber [IntCheck, NonnegativeCheck])) (VNum (Finite (- 5)))
   \<and> snd (updateTask (setAuthToken createGodspeedClient ''secret'') offline
        [(''duration_minutes'', VNum (Finite (- 5))), (''id'', VStr ''T1'')]) = []
   \<and> zod_check (ZOptional (ZNumber [IntCheck, NonnegativeCheck])) (VNum (Finite 30))
   \<and> snd (updateTask (setAuthToken createGodspeedClient ''secret'') offline
        [(''duration_minutes'', VNum (Finite 30)), (''id'', VStr ''T1'')]) \<noteq> []
   \<and> authToken (setAuthToken createGodspeedClient ''secret'') = Some ''secret''
   \<and> snd (createTask (setAuthToken createGodspeedClient ''secret'') offline
        [(''duration_minutes'', VNum (Finite (- 5))), (''id'', VStr ''T1'')]) \<noteq> []"
proof -
  let ?c = "setAuthToken createGodspeedClient ''secret''"
  let ?q = "[(''id'', VStr ''T1'')]"
  note fact = shapes_mirror_client_inputs [where c = ?c and rt = offline and q = ?q
      and token = "''secret''"]
  have all: "list_all (\<lambda>(name, shape, handler).
       name = ''getTaskLists'' \<or> name = ''createTask'' \<or> name = ''duplicateList''
       \<or> mirrors shape (client_inputs name)) tools"
    by (rule fact[THEN conjunct1])
  have update: "mirrors updateTask_shape (client_inputs ''updateTask'')"
    using all by (simp add: tools_def)
  have list: "mirrors listTasks_shape (client_inputs ''listTasks'')"
    using all by (simp add: tools_def)
  have absent: "property ?q ''duration_minutes'' = VUndefined"
    by (simp add: property_def)
  have token: "authToken ?c = Some ''secret''"
    by (simp add: setAuthToken_def)
  have plain: "snd (updateTask ?c offline ?q) \<noteq> []"
    by (simp add: updateTask_def updateTask_request_def getAuthHeaders_def setAuthToken_def
        property_def perform_Inr_sent)
  have refused: "\<not> zod_check (ZOptional (ZNumber [IntCheck, NonnegativeCheck])) (VNum (Finite (- 5)))"
    by simp
  have accepted: "zod_check (ZOptional (ZNumber [IntCheck, NonnegativeCheck])) (VNum (Finite 30))"
    by simp
  have check: "snd (updateTask ?c offline ((''duration_minutes'', v) # ?q)) = []
         \<longleftrightarrow> snd (updateTask ?c offline ?q) = []
             \<or> \<not> zod_check (ZOptional (ZNumber [IntCheck, NonnegativeCheck])) v" for v
    using fact[where v = v, THEN conjunct2, THEN conjunct2, THEN conjunct2, THEN conjunct2,
        THEN conjunct2, THEN conjunct1] absent by blast
  have negative: "snd (updateTask ?c offline
        [(''duration_minutes'', VNum (Finite (- 5))), (''id'', VStr ''T1'')]) = []"
    using check[of "VNum (Finite (- 5))"] refused by blast
  have thirty: "snd (updateTask ?c offline
        [(''duration_minutes'', VNum (Finite 30)), (''id'', VStr ''T1'')]) \<noteq> []"
    using check[of "VNum (Finite 30)"] accepted plain by blast
  have sent: "snd (createTask ?c offline
        [(''duration_minutes'', VNum (Finite (- 5))), (''id'', VStr ''T1'')]) \<noteq> []"
    using fact[where v = "VNum (Finite (- 5))", THEN conjunct2, THEN conjunct2, THEN conjunct2,
        THEN conjunct2, THEN conjunct2, THEN conjunct2, THEN conjunct2, THEN conjunct2,
        THEN conjunct2, THEN conjunct2, THEN conjunct1] token
    by simp
  show ?thesis
    by (intro conjI update list absent refused negative accepted thirty token sent)
qed

theorem getTaskLists_requires_an_argument_counterexample:
  "client_inputs ''getTaskLists'' = []
   \<and> required_arguments getTaskLists_shape = [''random_string'']
   \<and> \<not> mirrors getTaskLists_shape (client_inputs ''getTaskLists'')
   \<and> callTool (setAuthToken createGodspeedClient ''secret'') (answering 200 (Inr (JArr [])))
        ''getTaskLists'' []
      = (InvalidArguments, [])"
  by (simp add: client_inputs_def required_arguments_def getTaskLists_shape_def mirrors_def
      callTool_def tools_def zod_object_def property_def)

end
